theory Spec2Isabelle
  imports Complex_Main
begin

section \<open>JavaScript values used by the services\<close>

text \<open>
  Request fields arrive as JSON: a field is absent (\<open>undefined\<close>), \<open>null\<close> or carries a
  value. Numbers are modelled as rationals and integers (IEEE rounding is outside the
  model); instants (\<open>Date\<close>) as integer timestamps; identifiers as strings.
\<close>

datatype 'a js_field = Undefined | Null | Val 'a

text \<open>The result of a numeric expression that may leave the finite numbers.\<close>

datatype js_number = Num int | Infinity | NaN

datatype error =
    NotFoundError string
  | ValidationError string
  | InternalError string

fun truthy_str :: "string js_field \<Rightarrow> bool" where
  "truthy_str (Val s) = (s \<noteq> [])"
| "truthy_str _ = False"

fun truthy_num :: "rat js_field \<Rightarrow> bool" where
  "truthy_num (Val q) = (q \<noteq> 0)"
| "truthy_num _ = False"

fun truthy_int :: "int js_field \<Rightarrow> bool" where
  "truthy_int (Val n) = (n \<noteq> 0)"
| "truthy_int _ = False"

fun truthy_date :: "int js_field \<Rightarrow> bool" where
  "truthy_date (Val d) = True"
| "truthy_date _ = False"

definition is_ws :: "char \<Rightarrow> bool" where
  "is_ws c = (c \<in> set [CHR '' '', CHR 0x09, CHR 0x0A, CHR 0x0B, CHR 0x0C, CHR 0x0D])"

definition trim :: "string \<Rightarrow> string" where
  "trim s = rev (dropWhile is_ws (rev (dropWhile is_ws s)))"

definition toLower :: "char \<Rightarrow> char" where
  "toLower c = (if (65::nat) \<le> of_char c \<and> of_char c \<le> (90::nat)
                then char_of (of_char c + (32::nat)) else c)"

definition startsWith :: "string \<Rightarrow> string \<Rightarrow> bool" where
  "startsWith s p = (take (length p) s = p)"

text \<open>
  \<open>{ contains: search, mode: 'insensitive' }\<close> reaches the database as
  \<open>ILIKE '%search%'\<close> with the search text unescaped: in the pattern \<open>%\<close> stands for any
  run of characters, \<open>_\<close> for any one character, and a backslash takes the next character
  literally. Letters are compared after lower-casing (ASCII).
\<close>

fun like :: "string \<Rightarrow> string \<Rightarrow> bool" where
  "like [] s = (s = [])"
| "like (p # ps) s =
     (if p = CHR ''%''
      then (like ps s \<or> (case s of [] \<Rightarrow> False | c # cs \<Rightarrow> like (p # ps) cs))
      else if p = CHR 0x5C
      then (case ps of
              [] \<Rightarrow> False
            | q # qs \<Rightarrow> (case s of [] \<Rightarrow> False | c # cs \<Rightarrow> c = q \<and> like qs cs))
      else (case s of [] \<Rightarrow> False | c # cs \<Rightarrow> (p = CHR ''_'' \<or> c = p) \<and> like ps cs))"

definition contains_insensitive :: "string \<Rightarrow> string \<Rightarrow> bool" where
  "contains_insensitive s search =
     like (map toLower (CHR ''%'' # search @ [CHR ''%''])) (map toLower s)"

text \<open>\<open>[...new Set(xs)]\<close>: a \<open>Set\<close> keeps the first occurrence of every element, in
  insertion order.\<close>

definition set_add :: "'a list \<Rightarrow> 'a \<Rightarrow> 'a list" where
  "set_add seen x = (if x \<in> set seen then seen else seen @ [x])"

definition new_Set :: "'a list \<Rightarrow> 'a list" where
  "new_Set xs = foldl set_add [] xs"

section \<open>Database tables\<close>

text \<open>
  A table is the list of its rows in insertion order. The invoice table carries the columns
  the inward service selects.
\<close>

record company =
  co_id :: string
  co_name :: string
  co_gstNumber :: "string option"
  co_address :: "string option"

record invoice_row =
  inv_id :: string
  inv_invoiceNo :: string
  inv_grandTotal :: rat
  inv_paymentReceived :: rat
  inv_paymentReceivedOn :: "int option"

record inward_material =
  im_id :: string
  im_inwardEntryId :: string
  im_transporterName :: "string option"
  im_rate :: "rat option"
  im_amount :: "rat option"
  im_createdAt :: int

record inward_entry =
  ie_id :: string
  ie_srNo :: int
  ie_date :: int
  ie_lotNo :: "string option"
  ie_companyId :: string
  ie_manifestNo :: string
  ie_vehicleNo :: "string option"
  ie_wasteName :: string
  ie_rate :: "rat option"
  ie_category :: "string option"
  ie_quantity :: rat
  ie_unit :: string
  ie_month :: "string option"
  ie_invoiceId :: "string option"
  ie_createdAt :: int

record db =
  inwardEntry :: "inward_entry list"
  companyT :: "company list"
  invoiceT :: "invoice_row list"
  inwardMaterialT :: "inward_material list"

text \<open>An entry together with the relations a query includes.\<close>

record entry_view =
  ev_entry :: inward_entry
  ev_company :: "company option"
  ev_invoice :: "invoice_row option"
  ev_inwardMaterials :: "inward_material list"

definition entry_include :: "db \<Rightarrow> inward_entry \<Rightarrow> entry_view" where
  "entry_include d e =
     \<lparr> ev_entry = e,
       ev_company = find (\<lambda>c. co_id c = ie_companyId e) (companyT d),
       ev_invoice = (case ie_invoiceId e of None \<Rightarrow> None
                     | Some i \<Rightarrow> find (\<lambda>v. inv_id v = i) (invoiceT d)),
       ev_inwardMaterials =
         sort_key im_createdAt (filter (\<lambda>m. im_inwardEntryId m = ie_id e) (inwardMaterialT d)) \<rparr>"

section \<open>InwardService.getAllEntries\<close>

datatype sort_field = SortDate | SortSrNo | SortCreatedAt | SortQuantity
datatype sort_order = Asc | Desc

record query_options =
  q_page :: "int option"
  q_limit :: "int option"
  q_search :: "string option"
  q_companyId :: "string option"
  q_startDate :: "int option"
  q_endDate :: "int option"
  q_sortBy :: "sort_field option"
  q_sortOrder :: "sort_order option"

record pagination =
  pg_page :: int
  pg_limit :: int
  pg_total :: nat
  pg_totalPages :: js_number
  pg_hasNext :: bool
  pg_hasPrev :: bool

record company_brief =
  cb_id :: string
  cb_name :: string
  cb_gstNumber :: "string option"

record material_brief =
  mb_id :: string
  mb_transporterName :: "string option"
  mb_rate :: "rat option"
  mb_amount :: "rat option"

record entry_list_item =
  li_entry :: inward_entry
  li_company :: "company_brief option"
  li_invoice :: "invoice_row option"
  li_inwardMaterials :: "material_brief list"

record entries_result =
  res_entries :: "entry_list_item list"
  res_pagination :: pagination

definition company_select :: "company \<Rightarrow> company_brief" where
  "company_select c = \<lparr> cb_id = co_id c, cb_name = co_name c, cb_gstNumber = co_gstNumber c \<rparr>"

definition material_select :: "inward_material \<Rightarrow> material_brief" where
  "material_select m = \<lparr> mb_id = im_id m, mb_transporterName = im_transporterName m,
                         mb_rate = im_rate m, mb_amount = im_amount m \<rparr>"

definition list_include :: "db \<Rightarrow> inward_entry \<Rightarrow> entry_list_item" where
  "list_include d e =
     \<lparr> li_entry = e,
       li_company = map_option company_select (find (\<lambda>c. co_id c = ie_companyId e) (companyT d)),
       li_invoice = (case ie_invoiceId e of None \<Rightarrow> None
                     | Some i \<Rightarrow> find (\<lambda>v. inv_id v = i) (invoiceT d)),
       li_inwardMaterials =
         map material_select (filter (\<lambda>m. im_inwardEntryId m = ie_id e) (inwardMaterialT d)) \<rparr>"

definition or_default :: "'a option \<Rightarrow> 'a \<Rightarrow> 'a" where
  "or_default x d = (case x of None \<Rightarrow> d | Some v \<Rightarrow> v)"

definition opt_truthy :: "string option \<Rightarrow> bool" where
  "opt_truthy s = (case s of None \<Rightarrow> False | Some v \<Rightarrow> v \<noteq> [])"

text \<open>The \<open>where\<close> clause built from search, companyId, startDate and endDate.\<close>

definition where_clause :: "query_options \<Rightarrow> inward_entry \<Rightarrow> bool" where
  "where_clause opts e =
     ((if opt_truthy (q_search opts)
       then (contains_insensitive (ie_manifestNo e) (the (q_search opts))
             \<or> (case ie_lotNo e of None \<Rightarrow> False
                 | Some l \<Rightarrow> contains_insensitive l (the (q_search opts)))
             \<or> contains_insensitive (ie_wasteName e) (the (q_search opts)))
       else True)
      \<and> (if opt_truthy (q_companyId opts) then ie_companyId e = the (q_companyId opts) else True)
      \<and> (case q_startDate opts of None \<Rightarrow> True | Some s \<Rightarrow> s \<le> ie_date e)
      \<and> (case q_endDate opts of None \<Rightarrow> True | Some t \<Rightarrow> ie_date e \<le> t))"

definition sort_key_of :: "sort_field \<Rightarrow> inward_entry \<Rightarrow> rat" where
  "sort_key_of f e = (case f of
       SortDate \<Rightarrow> of_int (ie_date e)
     | SortSrNo \<Rightarrow> of_int (ie_srNo e)
     | SortCreatedAt \<Rightarrow> of_int (ie_createdAt e)
     | SortQuantity \<Rightarrow> ie_quantity e)"

text \<open>The database leaves the order among rows with equal keys open; here they keep
  their table order, in both directions.\<close>

definition orderBy :: "sort_field \<Rightarrow> sort_order \<Rightarrow> inward_entry list \<Rightarrow> inward_entry list" where
  "orderBy f ord xs = (case ord of Asc \<Rightarrow> sort_key (sort_key_of f) xs
                                  | Desc \<Rightarrow> sort_key (\<lambda>e. - sort_key_of f e) xs)"

text \<open>Prisma's \<open>skip\<close>/\<open>take\<close>: a negative \<open>take\<close> reads from the end of the ordering.\<close>

definition skip_take :: "nat \<Rightarrow> int \<Rightarrow> 'a list \<Rightarrow> 'a list" where
  "skip_take skip tk xs =
     (if 0 \<le> tk then take (nat tk) (drop skip xs)
      else rev (take (nat (- tk)) (drop skip (rev xs))))"

text \<open>\<open>Math.ceil(total / take)\<close> on a count and an integer page size: division by zero
  gives \<open>Infinity\<close> or, for \<open>0 / 0\<close>, \<open>NaN\<close>.\<close>

definition Math_ceil_div :: "nat \<Rightarrow> int \<Rightarrow> js_number" where
  "Math_ceil_div tot tk =
     (if tk = 0 then (if tot = 0 then NaN else Infinity)
      else Num \<lceil>(of_nat tot :: rat) / of_int tk\<rceil>)"

definition getAllEntries :: "db \<Rightarrow> query_options \<Rightarrow> error + entries_result" where
  "getAllEntries d opts =
     (let page = or_default (q_page opts) 1;
          limit = or_default (q_limit opts) 20;
          sortBy = or_default (q_sortBy opts) SortDate;
          sortOrder = or_default (q_sortOrder opts) Desc;
          skip = (page - 1) * limit;
          tk = limit;
          matching = filter (where_clause opts) (inwardEntry d);
          tot = length matching
      in if skip < 0 then Inl (InternalError ''Invalid value for skip'')
         else Inr \<lparr> res_entries = map (list_include d)
                               (skip_take (nat skip) tk (orderBy sortBy sortOrder matching)),
                    res_pagination = \<lparr> pg_page = page, pg_limit = tk, pg_total = tot,
                                    pg_totalPages = Math_ceil_div tot tk,
                                    pg_hasNext = (page * tk < int tot),
                                    pg_hasPrev = (page > 1) \<rparr> \<rparr>)"

section \<open>InwardService: single entries\<close>

definition getEntryById :: "db \<Rightarrow> string \<Rightarrow> error + entry_view" where
  "getEntryById d entryId =
     (case find (\<lambda>e. ie_id e = entryId) (inwardEntry d) of
        None \<Rightarrow> Inl (NotFoundError ''Inward entry'')
      | Some e \<Rightarrow> Inr (entry_include d e))"

definition getNextSrNo :: "db \<Rightarrow> int" where
  "getNextSrNo d =
     (case rev (sort_key ie_srNo (inwardEntry d)) of
        [] \<Rightarrow> 1
      | lastEntry # _ \<Rightarrow> (if ie_srNo lastEntry \<noteq> 0 then ie_srNo lastEntry + 1 else 1))"

subsection \<open>Number formatting and parsing\<close>

fun String_nat :: "nat \<Rightarrow> string" where
  "String_nat n =
     (if n < 10 then [char_of (48 + n)]
      else String_nat (n div 10) @ [char_of (48 + n mod 10)])"

declare String_nat.simps [simp del]

definition String_int :: "int \<Rightarrow> string" where
  "String_int i = (if i < 0 then CHR ''-'' # String_nat (nat (- i)) else String_nat (nat i))"

definition padStart :: "string \<Rightarrow> nat \<Rightarrow> char \<Rightarrow> string" where
  "padStart s n c = replicate (n - length s) c @ s"

text \<open>\<open>s.split('-').pop()\<close>: the part after the last hyphen.\<close>

definition split_pop :: "string \<Rightarrow> string" where
  "split_pop s = rev (takeWhile (\<lambda>c. c \<noteq> CHR ''-'') (rev s))"

definition digit_val :: "nat \<Rightarrow> char \<Rightarrow> nat option" where
  "digit_val radix c =
     (let k = (of_char c :: nat);
          v = (if 48 \<le> k \<and> k \<le> 57 then Some (k - 48)
               else if 97 \<le> k \<and> k \<le> 122 then Some (k - 87)
               else if 65 \<le> k \<and> k \<le> 90 then Some (k - 55)
               else None)
      in case v of None \<Rightarrow> None | Some dv \<Rightarrow> (if dv < radix then Some dv else None))"

fun parse_digits :: "nat \<Rightarrow> string \<Rightarrow> nat option \<Rightarrow> nat option" where
  "parse_digits radix [] acc = acc"
| "parse_digits radix (c # cs) acc =
     (case digit_val radix c of
        None \<Rightarrow> acc
      | Some dv \<Rightarrow> parse_digits radix cs (Some (or_default acc 0 * radix + dv)))"

text \<open>\<open>parseInt(s)\<close> without a radix; \<open>None\<close> is \<open>NaN\<close>. The value is the exact
  integer: beyond \<open>2^53\<close> the code's doubles round, which is outside the model.\<close>

definition parseInt :: "string \<Rightarrow> int option" where
  "parseInt s =
     (let s1 = dropWhile is_ws s;
          sgn_rest = (case s1 of
                        [] \<Rightarrow> (1::int, s1)
                      | c # cs \<Rightarrow> (if c = CHR ''-'' then (- 1, cs)
                                   else if c = CHR ''+'' then (1, cs) else (1, s1)));
          s2 = snd sgn_rest;
          hex = (startsWith s2 ''0x'' \<or> startsWith s2 ''0X'')
      in map_option (\<lambda>n. fst sgn_rest * int n)
           (if hex then parse_digits 16 (drop 2 s2) None else parse_digits 10 s2 None))"

subsection \<open>Lot numbers\<close>

text \<open>The clock and the identifier the database hands out are inputs of the model.\<close>

record env =
  env_year :: nat
  env_month :: nat
  env_now :: int
  env_newId :: string

definition lot_prefix :: "env \<Rightarrow> string" where
  "lot_prefix ev = ''LOT-'' @ String_nat (env_year ev) @ padStart (String_nat (env_month ev)) 2 CHR ''0''"

definition generateLotNo :: "env \<Rightarrow> db \<Rightarrow> string" where
  "generateLotNo ev d =
     (let matching = filter (\<lambda>e. case ie_lotNo e of None \<Rightarrow> False
                                  | Some l \<Rightarrow> startsWith l (lot_prefix ev)) (inwardEntry d)
      in case sort_key (\<lambda>e. - ie_createdAt e) matching of
           [] \<Rightarrow> lot_prefix ev @ ''-0001''
         | lastEntry # _ \<Rightarrow>
             (case ie_lotNo lastEntry of
                None \<Rightarrow> lot_prefix ev @ ''-0001''
              | Some l \<Rightarrow>
                  (if l = [] then lot_prefix ev @ ''-0001''
                   else (let lastNum = or_default (parseInt (split_pop l)) 0
                         in lot_prefix ev @ ''-'' @ padStart (String_int (lastNum + 1)) 4 CHR ''0''))))"

section \<open>InwardService.createEntry\<close>

record entry_data =
  ed_date :: "int js_field"
  ed_companyId :: "string js_field"
  ed_manifestNo :: "string js_field"
  ed_vehicleNo :: "string js_field"
  ed_wasteName :: "string js_field"
  ed_rate :: "rat js_field"
  ed_category :: "string js_field"
  ed_quantity :: "rat js_field"
  ed_unit :: "string js_field"
  ed_month :: "string js_field"
  ed_lotNo :: "string js_field"
  ed_srNo :: "int js_field"

fun val_of :: "'a js_field \<Rightarrow> 'a \<Rightarrow> 'a" where
  "val_of (Val x) dflt = x"
| "val_of _ dflt = dflt"

text \<open>\<open>x?.trim() || null\<close>\<close>

fun trim_or_null :: "string js_field \<Rightarrow> string option" where
  "trim_or_null (Val s) = (if trim s = [] then None else Some (trim s))"
| "trim_or_null _ = None"

text \<open>\<open>rate ? parseFloat(rate) : null\<close>\<close>

fun rate_or_null :: "rat js_field \<Rightarrow> rat option" where
  "rate_or_null (Val q) = (if q = 0 then None else Some q)"
| "rate_or_null _ = None"

definition required_missing :: "entry_data \<Rightarrow> bool" where
  "required_missing ed =
     (\<not> truthy_date (ed_date ed) \<or> \<not> truthy_str (ed_companyId ed)
      \<or> \<not> truthy_str (ed_manifestNo ed) \<or> \<not> truthy_str (ed_wasteName ed)
      \<or> \<not> truthy_num (ed_quantity ed) \<or> \<not> truthy_str (ed_unit ed))"

text \<open>
  The table has a primary key on \<open>id\<close> and a unique index on \<open>lotNo\<close> (the service reads
  it with \<open>findUnique\<close>); \<open>null\<close> lot numbers do not collide. A write that breaks either
  is rejected by the database with an error of its own.
\<close>

definition lot_taken :: "inward_entry list \<Rightarrow> string option \<Rightarrow> bool" where
  "lot_taken rows l = (case l of None \<Rightarrow> False | Some v \<Rightarrow> Some v \<in> set (map ie_lotNo rows))"

definition prisma_create :: "db \<Rightarrow> inward_entry \<Rightarrow> error + db" where
  "prisma_create d e =
     (if ie_id e \<in> set (map ie_id (inwardEntry d)) \<or> lot_taken (inwardEntry d) (ie_lotNo e)
      then Inl (InternalError ''Unique constraint failed'')
      else if ie_companyId e \<notin> set (map co_id (companyT d))
      then Inl (InternalError ''Foreign key constraint failed'')
      else Inr (d\<lparr> inwardEntry := inwardEntry d @ [e] \<rparr>))"

record entry_created =
  cr_entry :: inward_entry
  cr_company :: "company_brief option"

definition finalLotNo :: "env \<Rightarrow> db \<Rightarrow> entry_data \<Rightarrow> string" where
  "finalLotNo ev d ed =
     (if truthy_str (ed_lotNo ed) then val_of (ed_lotNo ed) [] else generateLotNo ev d)"

definition createEntry :: "env \<Rightarrow> db \<Rightarrow> entry_data \<Rightarrow> (error + entry_created) \<times> db" where
  "createEntry ev d ed =
     (if required_missing ed
      then (Inl (ValidationError
              ''Date, company, manifest number, waste name, quantity, and unit are required''), d)
      else case find (\<lambda>c. co_id c = val_of (ed_companyId ed) []) (companyT d) of
        None \<Rightarrow> (Inl (NotFoundError ''Company''), d)
      | Some company \<Rightarrow>
          (let srNo = (if truthy_int (ed_srNo ed) then val_of (ed_srNo ed) 0 else getNextSrNo d);
               lot = finalLotNo ev d ed
           in if lot \<noteq> [] \<and> find (\<lambda>e. ie_lotNo e = Some lot) (inwardEntry d) \<noteq> None
              then (Inl (ValidationError ''Lot number already exists''), d)
              else
                (let e = \<lparr> ie_id = env_newId ev, ie_srNo = srNo,
                           ie_date = val_of (ed_date ed) 0,
                           ie_lotNo = Some lot,
                           ie_companyId = val_of (ed_companyId ed) [],
                           ie_manifestNo = trim (val_of (ed_manifestNo ed) []),
                           ie_vehicleNo = trim_or_null (ed_vehicleNo ed),
                           ie_wasteName = trim (val_of (ed_wasteName ed) []),
                           ie_rate = rate_or_null (ed_rate ed),
                           ie_category = trim_or_null (ed_category ed),
                           ie_quantity = val_of (ed_quantity ed) 0,
                           ie_unit = trim (val_of (ed_unit ed) []),
                           ie_month = trim_or_null (ed_month ed),
                           ie_invoiceId = None,
                           ie_createdAt = env_now ev \<rparr>
                 in case prisma_create d e of
                      Inl err \<Rightarrow> (Inl err, d)
                    | Inr d' \<Rightarrow> (Inr \<lparr> cr_entry = e,
                                        cr_company = Some (company_select company) \<rparr>, d'))))"

section \<open>InwardService.updateEntry, deleteEntry, updatePayment\<close>

record update_data =
  ud_date :: "int js_field"
  ud_companyId :: "string js_field"
  ud_manifestNo :: "string js_field"
  ud_vehicleNo :: "string js_field"
  ud_wasteName :: "string js_field"
  ud_rate :: "rat js_field"
  ud_category :: "string js_field"
  ud_quantity :: "rat js_field"
  ud_unit :: "string js_field"
  ud_month :: "string js_field"
  ud_lotNo :: "string js_field"

text \<open>\<open>...(x !== undefined && { field: f(x) })\<close>: an absent field keeps the stored value.\<close>

fun patch :: "'a js_field \<Rightarrow> 'b \<Rightarrow> ('a js_field \<Rightarrow> 'b) \<Rightarrow> 'b" where
  "patch Undefined old f = old"
| "patch x old f = f x"

definition update_fields :: "update_data \<Rightarrow> inward_entry \<Rightarrow> inward_entry" where
  "update_fields u e =
     e\<lparr> ie_date := patch (ud_date u) (ie_date e) (\<lambda>x. val_of x 0),
        ie_companyId := patch (ud_companyId u) (ie_companyId e) (\<lambda>x. val_of x []),
        ie_manifestNo := patch (ud_manifestNo u) (ie_manifestNo e) (\<lambda>x. trim (val_of x [])),
        ie_vehicleNo := patch (ud_vehicleNo u) (ie_vehicleNo e) trim_or_null,
        ie_wasteName := patch (ud_wasteName u) (ie_wasteName e) (\<lambda>x. trim (val_of x [])),
        ie_rate := patch (ud_rate u) (ie_rate e) rate_or_null,
        ie_category := patch (ud_category u) (ie_category e) trim_or_null,
        ie_quantity := patch (ud_quantity u) (ie_quantity e) (\<lambda>x. val_of x 0),
        ie_unit := patch (ud_unit u) (ie_unit e) (\<lambda>x. trim (val_of x [])),
        ie_month := patch (ud_month u) (ie_month e) trim_or_null,
        ie_lotNo := patch (ud_lotNo u) (ie_lotNo e) trim_or_null \<rparr>"

text \<open>
  \<open>null.trim()\<close> throws a \<open>TypeError\<close>; \<open>null\<close> for the required columns \<open>companyId\<close>
  and \<open>quantity\<close> is rejected by the database client.
\<close>

definition update_data_invalid :: "update_data \<Rightarrow> bool" where
  "update_data_invalid u =
     (ud_companyId u = Null \<or> ud_manifestNo u = Null \<or> ud_wasteName u = Null
      \<or> ud_quantity u = Null \<or> ud_unit u = Null)"

definition prisma_update :: "db \<Rightarrow> string \<Rightarrow> inward_entry \<Rightarrow> error + db" where
  "prisma_update d entryId e' =
     (if lot_taken (filter (\<lambda>e. ie_id e \<noteq> entryId) (inwardEntry d)) (ie_lotNo e')
      then Inl (InternalError ''Unique constraint failed'')
      else if ie_companyId e' \<notin> set (map co_id (companyT d))
      then Inl (InternalError ''Foreign key constraint failed'')
      else Inr (d\<lparr> inwardEntry := map (\<lambda>e. if ie_id e = entryId then e' else e) (inwardEntry d) \<rparr>))"

definition updateEntry :: "db \<Rightarrow> string \<Rightarrow> update_data \<Rightarrow> (error + entry_view) \<times> db" where
  "updateEntry d entryId u =
     (case getEntryById d entryId of
        Inl err \<Rightarrow> (Inl err, d)
      | Inr cur \<Rightarrow>
          (if truthy_str (ud_lotNo u)
              \<and> find (\<lambda>e. ie_lotNo e = Some (val_of (ud_lotNo u) []) \<and> ie_id e \<noteq> entryId)
                   (inwardEntry d) \<noteq> None
           then (Inl (ValidationError ''Lot number already exists''), d)
           else if update_data_invalid u
           then (Inl (InternalError ''Invalid update data''), d)
           else (let e' = update_fields u (ev_entry cur)
                 in case prisma_update d entryId e' of
                      Inl err \<Rightarrow> (Inl err, d)
                    | Inr d' \<Rightarrow> (Inr (entry_include d' e'), d'))))"

definition deleteEntry :: "db \<Rightarrow> string \<Rightarrow> (error + unit) \<times> db" where
  "deleteEntry d entryId =
     (case getEntryById d entryId of
        Inl err \<Rightarrow> (Inl err, d)
      | Inr cur \<Rightarrow> (Inr (), d\<lparr> inwardEntry := filter (\<lambda>e. ie_id e \<noteq> entryId) (inwardEntry d) \<rparr>))"

text \<open>\<open>paymentData\<close> is never read; it is kept as an argument as in the source.\<close>

definition updatePayment :: "db \<Rightarrow> string \<Rightarrow> 'p \<Rightarrow> (error + entry_view) \<times> db" where
  "updatePayment d entryId paymentData =
     (case getEntryById d entryId of
        Inl err \<Rightarrow> (Inl err, d)
      | Inr entry \<Rightarrow> (Inr entry, d))"

section \<open>InwardController\<close>

text \<open>
  A handler either sends \<open>res.status(code).json(body)\<close> or hands the error to \<open>next\<close>.
  The body is the envelope \<open>{success, data, pagination?, message}\<close>.
\<close>

record 'd envelope =
  success :: bool
  data :: "'d option"
  pagination :: "pagination option"
  message :: string

datatype 'd http_result = Respond nat "'d envelope" | Next error

text \<open>\<open>data: { entry }\<close>\<close>

datatype 'e entry_object = EntryObject (entry_of: 'e)

definition getAllEntries_controller ::
    "db \<Rightarrow> query_options \<Rightarrow> (entry_list_item list) http_result" where
  "getAllEntries_controller d query =
     (case getAllEntries d query of
        Inl err \<Rightarrow> Next err
      | Inr result \<Rightarrow> Respond 200 \<lparr> success = True, data = Some (res_entries result),
                                     pagination = Some (res_pagination result),
                                     message = ''Inward entries retrieved successfully'' \<rparr>)"

definition createEntry_controller ::
    "env \<Rightarrow> db \<Rightarrow> entry_data \<Rightarrow> (entry_created entry_object) http_result \<times> db" where
  "createEntry_controller ev d body =
     (case createEntry ev d body of
        (Inl err, d') \<Rightarrow> (Next err, d')
      | (Inr e, d') \<Rightarrow> (Respond 201 \<lparr> success = True, data = Some (EntryObject e),
                                       pagination = None,
                                       message = ''Inward entry created successfully'' \<rparr>, d'))"

definition updatePayment_controller ::
    "db \<Rightarrow> string \<Rightarrow> 'p \<Rightarrow> (entry_view entry_object) http_result \<times> db" where
  "updatePayment_controller d ident paymentData =
     (case updatePayment d ident paymentData of
        (Inl err, d') \<Rightarrow> (Next err, d')
      | (Inr e, d') \<Rightarrow> (Respond 200 \<lparr> success = True, data = Some (EntryObject e),
                                       pagination = None,
                                       message = ''Payment updated successfully'' \<rparr>, d'))"

section \<open>CompaniesController: role-based stripping of material rates\<close>

text \<open>
  The companies service is not among the sources, so its results are arguments of the
  handlers. A material is a JSON object, the list of its properties; a company carries its
  \<open>materials\<close> (absent, \<open>null\<close> or an array) beside its other properties.
\<close>

type_synonym 'v js_object = "(string \<times> 'v) list"

record 'v company_obj =
  materials :: "'v js_object list js_field"
  other_props :: "'v js_object"

record 'v companies_result =
  companies :: "'v company_obj list"
  companies_pagination :: pagination

text \<open>An array, even an empty one, is truthy.\<close>

fun truthy_array :: "'a list js_field \<Rightarrow> bool" where
  "truthy_array (Val xs) = True"
| "truthy_array _ = False"

text \<open>\<open>const { rate, ...rest } = m; return rest;\<close>\<close>

definition strip_rate :: "'v js_object \<Rightarrow> 'v js_object" where
  "strip_rate m = filter (\<lambda>kv. fst kv \<noteq> ''rate'') m"

definition strip_company :: "'v company_obj \<Rightarrow> 'v company_obj" where
  "strip_company company =
     (case materials company of
        Val ms \<Rightarrow> company\<lparr> materials := Val (map strip_rate ms) \<rparr>
      | _ \<Rightarrow> company)"

definition getAllCompanies ::
    "string option \<Rightarrow> error + 'v companies_result \<Rightarrow> ('v company_obj list) http_result" where
  "getAllCompanies role service_result =
     (case service_result of
        Inl err \<Rightarrow> Next err
      | Inr result \<Rightarrow>
          Respond 200
            \<lparr> success = True,
              data = Some (map (\<lambda>company.
                        if role = Some ''admin'' \<or> \<not> truthy_array (materials company)
                        then company
                        else company\<lparr> materials :=
                               Val (map strip_rate (val_of (materials company) [])) \<rparr>)
                      (companies result)),
              pagination = Some (companies_pagination result),
              message = ''Companies retrieved successfully'' \<rparr>)"

datatype 'c company_object = CompanyObject (company_of: 'c)

definition getCompanyById ::
    "string option \<Rightarrow> error + ('v company_obj) option
       \<Rightarrow> (('v company_obj) option company_object) http_result" where
  "getCompanyById role service_result =
     (case service_result of
        Inl err \<Rightarrow> Next err
      | Inr company \<Rightarrow>
          Respond 200
            \<lparr> success = True,
              data = Some (CompanyObject
                       (case company of
                          None \<Rightarrow> None
                        | Some c \<Rightarrow>
                            (if role \<noteq> Some ''admin'' \<and> truthy_array (materials c)
                             then Some (c\<lparr> materials :=
                                          Val (map strip_rate (val_of (materials c) [])) \<rparr>)
                             else Some c))),
              pagination = None,
              message = ''Company retrieved successfully'' \<rparr>)"

datatype 'm materials_object = MaterialsObject (materials_of: 'm)

definition getCompanyMaterials ::
    "string option \<Rightarrow> error + 'v js_object list
       \<Rightarrow> ('v js_object list materials_object) http_result" where
  "getCompanyMaterials role service_result =
     (case service_result of
        Inl err \<Rightarrow> Next err
      | Inr mats \<Rightarrow>
          Respond 200
            \<lparr> success = True,
              data = Some (MaterialsObject
                       (map (\<lambda>m. if role = Some ''admin'' then m else strip_rate m) mats)),
              pagination = None,
              message = ''Materials retrieved successfully'' \<rparr>)"

section \<open>CreateInvoiceModal: form data and totals\<close>

datatype invoice_type = Inward | Outward | Transporter

text \<open>A rate or an amount derived from one: finite, or \<open>Infinity\<close>/\<open>NaN\<close>.\<close>

datatype number = Fin rat | NonFinite

record material =
  m_materialName :: string
  m_rate :: "rat option"
  m_unit :: "string option"
  m_quantity :: "rat option"
  m_amount :: "rat option"
  m_manifestNo :: "string option"
  m_description :: "string option"

record form_data =
  fd_date :: string
  fd_companyId :: string
  fd_transporterId :: string
  fd_customerName :: string
  fd_materials :: "material list"
  fd_manifestNos :: "string list"
  fd_inwardEntryIds :: "string list"
  fd_outwardEntryIds :: "string list"
  fd_subtotal :: rat
  fd_cgstRate :: "number option"
  fd_sgstRate :: "number option"
  fd_gstNo :: string
  fd_billedTo :: string
  fd_shippedTo :: string
  fd_description :: string
  fd_additionalCharges :: rat
  fd_additionalChargesDescription :: string
  fd_applyGst :: bool

text \<open>\<open>materials.reduce((sum, m) => sum + (m.amount || 0), 0)\<close>\<close>

definition material_sum :: "material list \<Rightarrow> rat" where
  "material_sum ms = foldl (\<lambda>acc m. acc + or_default (m_amount m) 0) 0 ms"

definition subtotal :: "form_data \<Rightarrow> rat" where
  "subtotal fd = (if material_sum (fd_materials fd) \<noteq> 0 then material_sum (fd_materials fd)
                  else fd_subtotal fd)"

definition additionalCharges :: "form_data \<Rightarrow> rat" where
  "additionalCharges fd = fd_additionalCharges fd"

definition baseForTax :: "form_data \<Rightarrow> rat" where
  "baseForTax fd = subtotal fd + additionalCharges fd"

definition cgstRateValue :: "form_data \<Rightarrow> number" where
  "cgstRateValue fd = (if fd_applyGst fd then or_default (fd_cgstRate fd) (Fin 9) else Fin 0)"

definition sgstRateValue :: "form_data \<Rightarrow> number" where
  "sgstRateValue fd = (if fd_applyGst fd then or_default (fd_sgstRate fd) (Fin 9) else Fin 0)"

text \<open>\<open>(base * rate) / 100\<close>\<close>

fun percent_of :: "rat \<Rightarrow> number \<Rightarrow> number" where
  "percent_of base (Fin r) = Fin ((base * r) / 100)"
| "percent_of base NonFinite = NonFinite"

fun plus_number :: "number \<Rightarrow> number \<Rightarrow> number" where
  "plus_number (Fin a) (Fin b) = Fin (a + b)"
| "plus_number _ _ = NonFinite"

definition cgst :: "form_data \<Rightarrow> number" where
  "cgst fd = percent_of (baseForTax fd) (cgstRateValue fd)"

definition sgst :: "form_data \<Rightarrow> number" where
  "sgst fd = percent_of (baseForTax fd) (sgstRateValue fd)"

definition grandTotal :: "form_data \<Rightarrow> number" where
  "grandTotal fd = plus_number (plus_number (Fin (baseForTax fd)) (cgst fd)) (sgst fd)"

text \<open>\<open>parseFloat(x.toFixed(2))\<close>: the nearest multiple of 1/100, on a tie the one
  farther from zero (\<open>toFixed\<close> rounds the magnitude and restores the sign). The argument
  is the exact amount; the representation error of the code's doubles is outside the model.\<close>

definition toFixed2 :: "rat \<Rightarrow> rat" where
  "toFixed2 q = (if q < 0 then - (of_int \<lfloor>(- q) * 100 + 1 / 2\<rfloor> / 100)
                 else of_int \<lfloor>q * 100 + 1 / 2\<rfloor> / 100)"

fun toFixed2_number :: "number \<Rightarrow> number" where
  "toFixed2_number (Fin q) = Fin (toFixed2 q)"
| "toFixed2_number NonFinite = NonFinite"

section \<open>CreateInvoiceModal: invoices and component state\<close>

record invoice_material =
  imat_materialName :: string
  imat_rate :: "rat option"
  imat_unit :: "string option"
  imat_quantity :: "rat option"
  imat_amount :: "rat option"
  imat_manifestNo :: "string option"
  imat_description :: "string option"

record invoice =
  iv_id :: string
  iv_invoiceNo :: string
  iv_type :: invoice_type
  iv_companyId :: "string option"
  iv_status :: string
  iv_invoiceMaterials :: "invoice_material list option"
  iv_invoiceManifests :: "string list option"
  iv_inwardEntries :: "string list option"
  iv_customerName :: "string option"
  iv_gstNo :: "string option"
  iv_billedTo :: "string option"
  iv_shippedTo :: "string option"
  iv_description :: "string option"
  iv_subtotal :: rat
  iv_cgst :: "rat option"
  iv_sgst :: "rat option"
  iv_additionalCharges :: "rat option"
  iv_additionalChargesDescription :: "string option"
  iv_paymentReceived :: "rat option"
  iv_paymentReceivedOn :: "string option"

record outward_entry =
  oe_id :: string
  oe_manifestNo :: "string option"
  oe_invoiceId :: "string option"

record modal_state =
  formData :: form_data
  isPaymentReceived :: bool
  paymentAmount :: number
  paymentDate :: string
  isAmountManuallyEdited :: bool
  existingInvoice :: "invoice option"
  isAppendMode :: bool
  showAppendAlert :: bool

text \<open>
  The props of the component and what its queries read while the form is open: the server's
  database and the outward entries. The snapshot is the server's state until the form
  submits; what a submission changes on the server is not part of it.
\<close>

record session =
  s_type :: invoice_type
  s_preselectedEntryIds :: "string list"
  s_today :: string
  s_db :: db
  s_outwardEntries :: "outward_entry list"

definition initial_form :: "session \<Rightarrow> form_data" where
  "initial_form sess =
     \<lparr> fd_date = s_today sess, fd_companyId = [], fd_transporterId = [], fd_customerName = [],
       fd_materials = [], fd_manifestNos = [],
       fd_inwardEntryIds = s_preselectedEntryIds sess, fd_outwardEntryIds = [],
       fd_subtotal = 0, fd_cgstRate = None, fd_sgstRate = None, fd_gstNo = [],
       fd_billedTo = [], fd_shippedTo = [], fd_description = [],
       fd_additionalCharges = 0, fd_additionalChargesDescription = [], fd_applyGst = True \<rparr>"

definition initial_state :: "session \<Rightarrow> modal_state" where
  "initial_state sess =
     \<lparr> formData = initial_form sess, isPaymentReceived = False, paymentAmount = Fin 0,
       paymentDate = s_today sess, isAmountManuallyEdited = False,
       existingInvoice = None, isAppendMode = False, showAppendAlert = False \<rparr>"

text \<open>\<open>x || d\<close> on an optional string.\<close>

definition str_or :: "string option \<Rightarrow> string \<Rightarrow> string" where
  "str_or x d = (case x of None \<Rightarrow> d | Some s \<Rightarrow> (if s = [] then d else s))"

text \<open>\<open>inwardService.getEntries({ limit: 100, companyId: formData.companyId || undefined })\<close>,
  answered by \<open>getAllEntries\<close>.\<close>

definition inwardEntries :: "session \<Rightarrow> modal_state \<Rightarrow> entry_list_item list" where
  "inwardEntries sess st =
     (case getAllEntries (s_db sess)
             \<lparr> q_page = None, q_limit = Some 100, q_search = None,
               q_companyId = (if fd_companyId (formData st) = [] then None
                              else Some (fd_companyId (formData st))),
               q_startDate = None, q_endDate = None, q_sortBy = None, q_sortOrder = None \<rparr> of
        Inl err \<Rightarrow> []
      | Inr r \<Rightarrow> res_entries r)"

section \<open>CreateInvoiceModal: effects and handlers\<close>

definition checkExistingInvoice ::
    "session \<Rightarrow> error + invoice list \<Rightarrow> modal_state \<Rightarrow> modal_state" where
  "checkExistingInvoice sess response st =
     (if s_type sess = Inward \<and> fd_companyId (formData st) \<noteq> []
      then (case response of
              Inl err \<Rightarrow> st
            | Inr invoices \<Rightarrow>
                (case find (\<lambda>inv. iv_status inv \<noteq> ''paid'') invoices of
                   Some candidate \<Rightarrow> st\<lparr> existingInvoice := Some candidate,
                                          showAppendAlert := True, isAppendMode := False \<rparr>
                 | None \<Rightarrow> st\<lparr> existingInvoice := None, showAppendAlert := False,
                                isAppendMode := False \<rparr>))
      else st\<lparr> existingInvoice := None, showAppendAlert := False \<rparr>)"

text \<open>The alert with the append button is rendered under this condition.\<close>

definition appendOffered :: "modal_state \<Rightarrow> bool" where
  "appendOffered st = (showAppendAlert st \<and> existingInvoice st \<noteq> None \<and> \<not> isAppendMode st)"

definition material_of :: "invoice_material \<Rightarrow> material" where
  "material_of m =
     \<lparr> m_materialName = imat_materialName m,
       m_rate = Some (or_default (imat_rate m) 0),
       m_unit = Some (str_or (imat_unit m) []),
       m_quantity = Some (or_default (imat_quantity m) 0),
       m_amount = Some (or_default (imat_amount m) 0),
       m_manifestNo = Some (str_or (imat_manifestNo m) []),
       m_description = Some (str_or (imat_description m) []) \<rparr>"

text \<open>\<open>tax ? (tax / subtotal * 100) : prev\<close>; dividing by a zero subtotal leaves the finite
  numbers.\<close>

definition derive_rate :: "rat option \<Rightarrow> rat \<Rightarrow> number option \<Rightarrow> number option" where
  "derive_rate tax sub prev =
     (case tax of
        None \<Rightarrow> prev
      | Some t \<Rightarrow> (if t = 0 then prev
                   else if sub = 0 then Some NonFinite
                   else Some (Fin (t / sub * 100))))"

definition merge_invoice :: "invoice \<Rightarrow> form_data \<Rightarrow> form_data" where
  "merge_invoice fullInvoice prev =
     (let existingMaterials = map material_of (or_default (iv_invoiceMaterials fullInvoice) []);
          existingManifests = or_default (iv_invoiceManifests fullInvoice) [];
          existingEntryIds = or_default (iv_inwardEntries fullInvoice) []
      in prev\<lparr> fd_materials := existingMaterials @ fd_materials prev,
               fd_manifestNos := new_Set (existingManifests @ fd_manifestNos prev),
               fd_inwardEntryIds := new_Set (existingEntryIds @ fd_inwardEntryIds prev),
               fd_gstNo := str_or (iv_gstNo fullInvoice) (fd_gstNo prev),
               fd_billedTo := str_or (iv_billedTo fullInvoice) (fd_billedTo prev),
               fd_shippedTo := str_or (iv_shippedTo fullInvoice) (fd_shippedTo prev),
               fd_description := str_or (iv_description fullInvoice) (fd_description prev),
               fd_cgstRate := derive_rate (iv_cgst fullInvoice) (iv_subtotal fullInvoice)
                                (fd_cgstRate prev),
               fd_sgstRate := derive_rate (iv_sgst fullInvoice) (iv_subtotal fullInvoice)
                                (fd_sgstRate prev),
               fd_customerName := str_or (iv_customerName fullInvoice) (fd_customerName prev),
               fd_additionalCharges := or_default (iv_additionalCharges fullInvoice) 0,
               fd_additionalChargesDescription :=
                 str_or (iv_additionalChargesDescription fullInvoice) [] \<rparr>)"

text \<open>The code shows the UTC day of the stored payment instant,
  \<open>new Date(x).toISOString().slice(0, 10)\<close>. Instants are kept as their ISO text in UTC, so
  the day is its first ten characters; other spellings of an instant are outside the model.\<close>

definition handleAppendConfirm :: "error + invoice \<Rightarrow> modal_state \<Rightarrow> modal_state" where
  "handleAppendConfirm response st =
     (case existingInvoice st of
        None \<Rightarrow> st
      | Some ex \<Rightarrow>
          (let st1 = st\<lparr> isAppendMode := True, showAppendAlert := False \<rparr>
           in case response of
                Inl err \<Rightarrow> st1
              | Inr fullInvoice \<Rightarrow>
                  (let st2 = st1\<lparr> formData := merge_invoice fullInvoice (formData st1) \<rparr>
                   in if 0 < or_default (iv_paymentReceived fullInvoice) 0
                      then st2\<lparr> isPaymentReceived := True,
                                paymentAmount := Fin (or_default (iv_paymentReceived fullInvoice) 0),
                                paymentDate := (case iv_paymentReceivedOn fullInvoice of
                                                  None \<Rightarrow> paymentDate st2
                                                | Some day \<Rightarrow> (if day = [] then paymentDate st2
                                                               else take 10 day)) \<rparr>
                      else st2)))"

text \<open>Effect: the payment amount follows the total until it is edited by hand.\<close>

definition syncPaymentAmount :: "modal_state \<Rightarrow> modal_state" where
  "syncPaymentAmount st =
     (if isPaymentReceived st \<and> \<not> isAmountManuallyEdited st
      then st\<lparr> paymentAmount := toFixed2_number (grandTotal (formData st)) \<rparr>
      else st)"

text \<open>The company select; the effect on \<open>companyId\<close> then checks for an open invoice.\<close>

definition selectCompany ::
    "session \<Rightarrow> string \<Rightarrow> error + invoice list \<Rightarrow> modal_state \<Rightarrow> modal_state" where
  "selectCompany sess cid response st =
     (let company = find (\<lambda>c. co_id c = cid) (companyT (s_db sess));
          fd = (formData st)
                 \<lparr> fd_companyId := cid,
                   fd_customerName := (case company of None \<Rightarrow> [] | Some c \<Rightarrow> co_name c),
                   fd_gstNo := (case company of None \<Rightarrow> [] | Some c \<Rightarrow> str_or (co_gstNumber c) []),
                   fd_billedTo := (case company of None \<Rightarrow> [] | Some c \<Rightarrow> str_or (co_address c) []),
                   fd_shippedTo := (case company of None \<Rightarrow> [] | Some c \<Rightarrow> str_or (co_address c) []),
                   fd_inwardEntryIds := [], fd_materials := [], fd_manifestNos := [],
                   fd_subtotal := 0 \<rparr>
      in checkExistingInvoice sess response (st\<lparr> formData := fd \<rparr>))"

definition selectTransporter :: "string \<Rightarrow> company option \<Rightarrow> modal_state \<Rightarrow> modal_state" where
  "selectTransporter tid transporter st =
     st\<lparr> formData := (formData st)
           \<lparr> fd_transporterId := tid,
             fd_customerName := (case transporter of None \<Rightarrow> [] | Some t \<Rightarrow> co_name t),
             fd_gstNo := (case transporter of None \<Rightarrow> [] | Some t \<Rightarrow> str_or (co_gstNumber t) []),
             fd_billedTo := (case transporter of None \<Rightarrow> [] | Some t \<Rightarrow> str_or (co_address t) []),
             fd_shippedTo := (case transporter of None \<Rightarrow> [] | Some t \<Rightarrow> str_or (co_address t) []) \<rparr> \<rparr>"

text \<open>Effect: auto-populate from the preselected entries. The listed company carries no
  address (the list query selects id, name and GST number), so the addresses stay.\<close>

definition preselectEffect ::
    "session \<Rightarrow> error + invoice list \<Rightarrow> modal_state \<Rightarrow> modal_state" where
  "preselectEffect sess response st =
     (case filter (\<lambda>e. ie_id (li_entry e) \<in> set (s_preselectedEntryIds sess))
             (inwardEntries sess st) of
        [] \<Rightarrow> st
      | firstEntry # others \<Rightarrow>
          (let prev = formData st;
               fd = prev
                 \<lparr> fd_companyId := ie_companyId (li_entry firstEntry),
                   fd_customerName := (case li_company firstEntry of None \<Rightarrow> []
                                       | Some c \<Rightarrow> cb_name c),
                   fd_gstNo := (case li_company firstEntry of None \<Rightarrow> fd_gstNo prev
                                | Some c \<Rightarrow> str_or (cb_gstNumber c) (fd_gstNo prev)),
                   fd_manifestNos := filter (\<lambda>m. m \<noteq> [])
                                       (map (\<lambda>e. ie_manifestNo (li_entry e)) (firstEntry # others)),
                   fd_inwardEntryIds := s_preselectedEntryIds sess \<rparr>;
               st1 = st\<lparr> formData := fd \<rparr>
           in if fd_companyId fd \<noteq> fd_companyId prev
              then checkExistingInvoice sess response st1 else st1))"

definition settingsEffect :: "number \<Rightarrow> number \<Rightarrow> modal_state \<Rightarrow> modal_state" where
  "settingsEffect cgstSetting sgstSetting st =
     st\<lparr> formData := (formData st)\<lparr> fd_cgstRate := Some cgstSetting,
                                     fd_sgstRate := Some sgstSetting \<rparr> \<rparr>"

subsection \<open>Linking inward entries\<close>

definition isInvoiced :: "entry_list_item \<Rightarrow> bool" where
  "isInvoiced entry = opt_truthy (ie_invoiceId (li_entry entry))"

definition isLinkedToCurrent :: "modal_state \<Rightarrow> entry_list_item \<Rightarrow> bool" where
  "isLinkedToCurrent st entry =
     (isAppendMode st \<and>
      (case existingInvoice st of
         None \<Rightarrow> False
       | Some ex \<Rightarrow> ie_invoiceId (li_entry entry) = Some (iv_id ex)))"

definition isSelected :: "modal_state \<Rightarrow> entry_list_item \<Rightarrow> bool" where
  "isSelected st entry = (ie_id (li_entry entry) \<in> set (fd_inwardEntryIds (formData st)))"

definition isDisabled :: "modal_state \<Rightarrow> entry_list_item \<Rightarrow> bool" where
  "isDisabled st entry = (isInvoiced entry \<and> \<not> isLinkedToCurrent st entry)"

text \<open>\<open>xs.splice(xs.findIndex(p), 1)\<close>: drop the first element satisfying \<open>p\<close>, if any.\<close>

fun remove_first :: "('a \<Rightarrow> bool) \<Rightarrow> 'a list \<Rightarrow> 'a list" where
  "remove_first p [] = []"
| "remove_first p (x # xs) = (if p x then xs else x # remove_first p xs)"

definition entry_material :: "entry_list_item \<Rightarrow> material" where
  "entry_material entry =
     (let e = li_entry entry; r = or_default (ie_rate e) 0
      in \<lparr> m_materialName = ie_wasteName e, m_rate = Some r, m_unit = Some (ie_unit e),
           m_quantity = Some (ie_quantity e), m_amount = Some (ie_quantity e * r),
           m_manifestNo = Some (ie_manifestNo e), m_description = None \<rparr>)"

text \<open>The checkbox handler; \<open>checked\<close> is the new state of the box.\<close>

definition toggleInwardEntry :: "entry_list_item \<Rightarrow> bool \<Rightarrow> modal_state \<Rightarrow> modal_state" where
  "toggleInwardEntry entry checked st =
     (let fd = formData st; e = li_entry entry
      in if checked
         then st\<lparr> formData := fd
                \<lparr> fd_inwardEntryIds := fd_inwardEntryIds fd @ [ie_id e],
                  fd_materials := fd_materials fd @ [entry_material entry],
                  fd_manifestNos :=
                    (if ie_manifestNo e \<noteq> [] \<and> ie_manifestNo e \<notin> set (fd_manifestNos fd)
                     then fd_manifestNos fd @ [ie_manifestNo e] else fd_manifestNos fd) \<rparr> \<rparr>
         else (let newMaterials =
                     remove_first (\<lambda>m. m_manifestNo m = Some (ie_manifestNo e)
                                         \<and> m_materialName m = ie_wasteName e) (fd_materials fd);
                   isManifestUsed =
                     list_ex (\<lambda>m. m_manifestNo m = Some (ie_manifestNo e)) newMaterials
               in st\<lparr> formData := fd
                    \<lparr> fd_inwardEntryIds := filter (\<lambda>i. i \<noteq> ie_id e) (fd_inwardEntryIds fd),
                      fd_materials := newMaterials,
                      fd_manifestNos :=
                        (if isManifestUsed then fd_manifestNos fd
                         else filter (\<lambda>m. m \<noteq> ie_manifestNo e) (fd_manifestNos fd)) \<rparr> \<rparr>))"

subsection \<open>Linking outward entries\<close>

text \<open>The options of the picker.\<close>

definition outwardOptions :: "session \<Rightarrow> outward_entry list" where
  "outwardOptions sess = filter (\<lambda>e. \<not> opt_truthy (oe_invoiceId e)) (s_outwardEntries sess)"

definition selectOutwardEntries :: "session \<Rightarrow> string list \<Rightarrow> modal_state \<Rightarrow> modal_state" where
  "selectOutwardEntries sess selected st =
     st\<lparr> formData := (formData st)
           \<lparr> fd_outwardEntryIds := selected,
             fd_manifestNos := fd_manifestNos (formData st) @
               concat (map (\<lambda>i. case find (\<lambda>e. oe_id e = i) (s_outwardEntries sess) of
                                   None \<Rightarrow> []
                                 | Some e \<Rightarrow> (if opt_truthy (oe_manifestNo e)
                                              then [the (oe_manifestNo e)] else []))
                           selected) \<rparr> \<rparr>"

subsection \<open>Materials\<close>

definition removeMaterial :: "nat \<Rightarrow> modal_state \<Rightarrow> modal_state" where
  "removeMaterial index st =
     st\<lparr> formData := (formData st)
           \<lparr> fd_materials := map snd (filter (\<lambda>(i, m). i \<noteq> index)
                                    (enumerate 0 (fd_materials (formData st)))) \<rparr> \<rparr>"

datatype material_field = Quantity | Rate

definition updateMaterial :: "nat \<Rightarrow> material_field \<Rightarrow> rat \<Rightarrow> modal_state \<Rightarrow> modal_state" where
  "updateMaterial index field v st =
     (let ms = fd_materials (formData st); m = ms ! index;
          qty = (case field of Quantity \<Rightarrow> v | Rate \<Rightarrow> or_default (m_quantity m) 0);
          rt = (case field of Rate \<Rightarrow> v | Quantity \<Rightarrow> or_default (m_rate m) 0);
          m' = (case field of Quantity \<Rightarrow> m\<lparr> m_quantity := Some v, m_amount := Some (qty * rt) \<rparr>
                            | Rate \<Rightarrow> m\<lparr> m_rate := Some v, m_amount := Some (qty * rt) \<rparr>)
      in st\<lparr> formData := (formData st)\<lparr> fd_materials := ms[index := m'] \<rparr> \<rparr>)"

subsection \<open>Submission\<close>

record invoice_payload =
  pl_type :: "invoice_type option"
  pl_date :: string
  pl_companyId :: "string option"
  pl_transporterId :: "string option"
  pl_customerName :: "string option"
  pl_materials :: "material list option"
  pl_manifestNos :: "string list option"
  pl_inwardEntryIds :: "string list option"
  pl_outwardEntryIds :: "string list option"
  pl_subtotal :: rat
  pl_cgstRate :: "number option"
  pl_sgstRate :: "number option"
  pl_gstNo :: "string option"
  pl_billedTo :: "string option"
  pl_shippedTo :: "string option"
  pl_description :: "string option"
  pl_additionalCharges :: rat
  pl_additionalChargesDescription :: "string option"
  pl_paymentReceived :: number
  pl_paymentReceivedOn :: "string option"

datatype submission =
    Rejected string
  | UpdateInvoice string invoice_payload
  | CreateInvoice invoice_payload

text \<open>\<open>x || undefined\<close> and \<open>xs.length > 0 ? xs : undefined\<close>\<close>

definition or_undefined :: "'a list \<Rightarrow> 'a list option" where
  "or_undefined xs = (if xs = [] then None else Some xs)"

definition updatePayload :: "modal_state \<Rightarrow> invoice_payload" where
  "updatePayload st =
     (let fd = formData st
      in \<lparr> pl_type = None, pl_date = fd_date fd, pl_companyId = None, pl_transporterId = None,
           pl_customerName = Some (fd_customerName fd),
           pl_materials = Some (fd_materials fd),
           pl_manifestNos = Some (new_Set (fd_manifestNos fd)),
           pl_inwardEntryIds = Some (fd_inwardEntryIds fd),
           pl_outwardEntryIds = None,
           pl_subtotal = subtotal fd,
           pl_cgstRate = (if fd_applyGst fd then fd_cgstRate fd else Some (Fin 0)),
           pl_sgstRate = (if fd_applyGst fd then fd_sgstRate fd else Some (Fin 0)),
           pl_gstNo = Some (fd_gstNo fd), pl_billedTo = Some (fd_billedTo fd),
           pl_shippedTo = Some (fd_shippedTo fd), pl_description = Some (fd_description fd),
           pl_additionalCharges = fd_additionalCharges fd,
           pl_additionalChargesDescription = Some (fd_additionalChargesDescription fd),
           pl_paymentReceived = (if isPaymentReceived st then paymentAmount st else Fin 0),
           pl_paymentReceivedOn = (if isPaymentReceived st then Some (paymentDate st) else None) \<rparr>)"

definition createPayload :: "session \<Rightarrow> modal_state \<Rightarrow> invoice_payload" where
  "createPayload sess st =
     (let fd = formData st
      in \<lparr> pl_type = Some (s_type sess), pl_date = fd_date fd,
           pl_companyId = or_undefined (fd_companyId fd),
           pl_transporterId = or_undefined (fd_transporterId fd),
           pl_customerName = or_undefined (fd_customerName fd),
           pl_materials = or_undefined (fd_materials fd),
           pl_manifestNos = or_undefined (fd_manifestNos fd),
           pl_inwardEntryIds = or_undefined (fd_inwardEntryIds fd),
           pl_outwardEntryIds = or_undefined (fd_outwardEntryIds fd),
           pl_subtotal = subtotal fd,
           pl_cgstRate = (if fd_applyGst fd then fd_cgstRate fd else Some (Fin 0)),
           pl_sgstRate = (if fd_applyGst fd then fd_sgstRate fd else Some (Fin 0)),
           pl_gstNo = or_undefined (fd_gstNo fd), pl_billedTo = or_undefined (fd_billedTo fd),
           pl_shippedTo = or_undefined (fd_shippedTo fd),
           pl_description = or_undefined (fd_description fd),
           pl_additionalCharges = fd_additionalCharges fd,
           pl_additionalChargesDescription = or_undefined (fd_additionalChargesDescription fd),
           pl_paymentReceived = (if isPaymentReceived st then paymentAmount st else Fin 0),
           pl_paymentReceivedOn = (if isPaymentReceived st then Some (paymentDate st) else None) \<rparr>)"

definition handleSubmit :: "session \<Rightarrow> modal_state \<Rightarrow> submission" where
  "handleSubmit sess st =
     (let fd = formData st
      in if s_type sess = Inward \<and> fd_companyId fd = []
         then Rejected ''Please select a company''
         else if (s_type sess = Outward \<or> s_type sess = Transporter) \<and> fd_transporterId fd = []
         then Rejected ''Please select a transporter''
         else if fd_materials fd = [] \<and> fd_subtotal fd = 0
         then Rejected ''Please add at least one material or enter a subtotal''
         else (case existingInvoice st of
                 Some ex \<Rightarrow> (if isAppendMode st then UpdateInvoice (iv_id ex) (updatePayload st)
                             else CreateInvoice (createPayload sess st))
               | None \<Rightarrow> CreateInvoice (createPayload sess st)))"

text \<open>After a successful submission the form is reset; the reset object has no
  \<open>applyGst\<close>, which then reads as false.\<close>

definition resetAfterSubmit :: "session \<Rightarrow> modal_state \<Rightarrow> modal_state" where
  "resetAfterSubmit sess st =
     st\<lparr> formData := (initial_form sess)\<lparr> fd_inwardEntryIds := [], fd_applyGst := False \<rparr>,
         isAppendMode := False, existingInvoice := None, isPaymentReceived := False,
         paymentAmount := Fin 0, paymentDate := s_today sess,
         isAmountManuallyEdited := False \<rparr>"

section \<open>CreateInvoiceModal: the form as a transition system\<close>

datatype text_field =
    FDate | FCustomerName | FGstNo | FBilledTo | FShippedTo | FDescription
  | FAdditionalChargesDescription

datatype event =
    SelectCompany string "error + invoice list"
  | SelectTransporter string "company option"
  | PreselectEffect "error + invoice list"
  | SettingsEffect number number
  | AppendConfirm "error + invoice"
  | CreateNewInvoice
  | ToggleInwardEntry entry_list_item
  | SelectOutwardEntries "string list"
  | RemoveMaterial nat
  | UpdateMaterial nat material_field rat
  | EditText text_field string
  | EditSubtotal rat
  | EditAdditionalCharges rat
  | SetApplyGst bool
  | SetPaymentReceived bool
  | EditPaymentAmount rat
  | EditPaymentDate string
  | SubmitSucceeded

definition editText :: "text_field \<Rightarrow> string \<Rightarrow> form_data \<Rightarrow> form_data" where
  "editText f v fd = (case f of
       FDate \<Rightarrow> fd\<lparr> fd_date := v \<rparr>
     | FCustomerName \<Rightarrow> fd\<lparr> fd_customerName := v \<rparr>
     | FGstNo \<Rightarrow> fd\<lparr> fd_gstNo := v \<rparr>
     | FBilledTo \<Rightarrow> fd\<lparr> fd_billedTo := v \<rparr>
     | FShippedTo \<Rightarrow> fd\<lparr> fd_shippedTo := v \<rparr>
     | FDescription \<Rightarrow> fd\<lparr> fd_description := v \<rparr>
     | FAdditionalChargesDescription \<Rightarrow> fd\<lparr> fd_additionalChargesDescription := v \<rparr>)"

definition setPaymentReceived :: "bool \<Rightarrow> modal_state \<Rightarrow> modal_state" where
  "setPaymentReceived checked st =
     (if checked \<and> paymentAmount st = Fin 0
      then st\<lparr> isPaymentReceived := checked,
                paymentAmount := toFixed2_number (grandTotal (formData st)) \<rparr>
      else st\<lparr> isPaymentReceived := checked \<rparr>)"

fun isRejected :: "submission \<Rightarrow> bool" where
  "isRejected (Rejected reason) = True"
| "isRejected _ = False"

text \<open>
  What the rendered form lets the user do, and when the effects run. The invoice that
  \<open>getInvoiceById\<close> returns is the one asked for.
\<close>

fun enabled :: "session \<Rightarrow> modal_state \<Rightarrow> event \<Rightarrow> bool" where
  "enabled sess st (SelectCompany cid response) = (s_type sess = Inward \<and> \<not> isAppendMode st)"
| "enabled sess st (SelectTransporter tid transporter) =
     (s_type sess = Outward \<or> s_type sess = Transporter)"
| "enabled sess st (PreselectEffect response) = (s_preselectedEntryIds sess \<noteq> [])"
| "enabled sess st (AppendConfirm response) =
     (appendOffered st \<and>
      (case response of Inl err \<Rightarrow> True
       | Inr fullInvoice \<Rightarrow> map_option iv_id (existingInvoice st) = Some (iv_id fullInvoice)))"
| "enabled sess st CreateNewInvoice = appendOffered st"
| "enabled sess st (ToggleInwardEntry entry) =
     (s_type sess = Inward \<and> fd_companyId (formData st) \<noteq> []
      \<and> entry \<in> set (inwardEntries sess st) \<and> \<not> isDisabled st entry)"
| "enabled sess st (SelectOutwardEntries selected) =
     ((s_type sess = Outward \<or> s_type sess = Transporter) \<and> s_outwardEntries sess \<noteq> []
      \<and> list_all (\<lambda>i. i \<in> set (map oe_id (outwardOptions sess))) selected)"
| "enabled sess st (RemoveMaterial index) = (index < length (fd_materials (formData st)))"
| "enabled sess st (UpdateMaterial index field v) = (index < length (fd_materials (formData st)))"
| "enabled sess st (EditSubtotal v) = (fd_materials (formData st) = [])"
| "enabled sess st (EditPaymentAmount v) = isPaymentReceived st"
| "enabled sess st (EditPaymentDate v) = isPaymentReceived st"
| "enabled sess st SubmitSucceeded = (\<not> isRejected (handleSubmit sess st))"
| "enabled sess st ev = True"

fun handle :: "session \<Rightarrow> event \<Rightarrow> modal_state \<Rightarrow> modal_state" where
  "handle sess (SelectCompany cid response) st = selectCompany sess cid response st"
| "handle sess (SelectTransporter tid transporter) st = selectTransporter tid transporter st"
| "handle sess (PreselectEffect response) st = preselectEffect sess response st"
| "handle sess (SettingsEffect c s) st = settingsEffect c s st"
| "handle sess (AppendConfirm response) st = handleAppendConfirm response st"
| "handle sess CreateNewInvoice st = st\<lparr> showAppendAlert := False \<rparr>"
| "handle sess (ToggleInwardEntry entry) st = toggleInwardEntry entry (\<not> isSelected st entry) st"
| "handle sess (SelectOutwardEntries selected) st = selectOutwardEntries sess selected st"
| "handle sess (RemoveMaterial index) st = removeMaterial index st"
| "handle sess (UpdateMaterial index field v) st = updateMaterial index field v st"
| "handle sess (EditText f v) st = st\<lparr> formData := editText f v (formData st) \<rparr>"
| "handle sess (EditSubtotal v) st = st\<lparr> formData := (formData st)\<lparr> fd_subtotal := v \<rparr> \<rparr>"
| "handle sess (EditAdditionalCharges v) st =
     st\<lparr> formData := (formData st)\<lparr> fd_additionalCharges := v \<rparr> \<rparr>"
| "handle sess (SetApplyGst b) st = st\<lparr> formData := (formData st)\<lparr> fd_applyGst := b \<rparr> \<rparr>"
| "handle sess (SetPaymentReceived checked) st = setPaymentReceived checked st"
| "handle sess (EditPaymentAmount v) st =
     st\<lparr> paymentAmount := Fin v, isAmountManuallyEdited := True \<rparr>"
| "handle sess (EditPaymentDate v) st = st\<lparr> paymentDate := v \<rparr>"
| "handle sess SubmitSucceeded st = resetAfterSubmit sess st"

definition step :: "session \<Rightarrow> event \<Rightarrow> modal_state \<Rightarrow> modal_state option" where
  "step sess ev st = (if enabled sess st ev then Some (syncPaymentAmount (handle sess ev st))
                      else None)"

text \<open>
  A run of the form. \<open>SubmitSucceeded\<close> closes and resets it; when it is opened again its
  queries read the server anew, so what is said about the invoices of entries concerns runs
  up to the submission.
\<close>

fun run :: "session \<Rightarrow> event list \<Rightarrow> modal_state \<Rightarrow> modal_state option" where
  "run sess [] st = Some st"
| "run sess (ev # evs) st = (case step sess ev st of None \<Rightarrow> None | Some st' \<Rightarrow> run sess evs st')"

section \<open>The invoice list endpoint\<close>

text \<open>
  Modelled from the spec: the invoice list endpoint \<open>GET /api/invoices\<close> (its controller and
  service are not among the sources). It is a conventional list query with pagination
  parameters: of the invoices, given in the order the endpoint sorts them, those of the
  company and type asked for, at most \<open>limit\<close> of them.
\<close>

definition getInvoices :: "invoice list \<Rightarrow> string \<Rightarrow> invoice_type \<Rightarrow> nat \<Rightarrow> invoice list" where
  "getInvoices sorted_invoices cid ty lmt =
     take lmt (filter (\<lambda>v. iv_companyId v = Some cid \<and> iv_type v = ty) sorted_invoices)"

section \<open>Notions used in the stated properties\<close>

text \<open>A request field is missing when it is absent or \<open>null\<close>.\<close>

definition field_missing :: "'a js_field \<Rightarrow> bool" where
  "field_missing x = (x = Undefined \<or> x = Null)"

text \<open>The materials of a company object, and whether a material has a \<open>rate\<close> property.\<close>

definition company_materials :: "'v company_obj \<Rightarrow> 'v js_object list" where
  "company_materials c = val_of (materials c) []"

definition has_rate :: "'v js_object \<Rightarrow> bool" where
  "has_rate m = (''rate'' \<in> set (map fst m))"

text \<open>The company has an Inward invoice that is not fully paid.\<close>

definition has_open_invoice :: "invoice list \<Rightarrow> string \<Rightarrow> bool" where
  "has_open_invoice invoices cid =
     list_ex (\<lambda>v. iv_companyId v = Some cid \<and> iv_type v = Inward \<and> iv_status v \<noteq> ''paid'') invoices"

text \<open>Events that touch neither the linked entries nor the append mode.\<close>

fun plain_event :: "event \<Rightarrow> bool" where
  "plain_event (SelectCompany cid response) = False"
| "plain_event (PreselectEffect response) = False"
| "plain_event (AppendConfirm response) = False"
| "plain_event (ToggleInwardEntry entry) = False"
| "plain_event (SelectOutwardEntries selected) = False"
| "plain_event SubmitSucceeded = False"
| "plain_event ev = True"

text \<open>An entry may be in the form's list of linked inward entries when the caller
  preselected it, when it has no invoice, or when it belongs to the invoice being appended
  to.\<close>

definition entry_linkable :: "session \<Rightarrow> modal_state \<Rightarrow> inward_entry \<Rightarrow> bool" where
  "entry_linkable sess st e =
     (ie_id e \<in> set (s_preselectedEntryIds sess)
      \<or> \<not> opt_truthy (ie_invoiceId e)
      \<or> (isAppendMode st \<and> existingInvoice st \<noteq> None
          \<and> ie_invoiceId e = map_option iv_id (existingInvoice st)))"

definition links_ok :: "session \<Rightarrow> modal_state \<Rightarrow> bool" where
  "links_ok sess st =
     list_all (\<lambda>e. ie_id e \<in> set (fd_inwardEntryIds (formData st)) \<longrightarrow> entry_linkable sess st e)
       (inwardEntry (s_db sess))"

definition outward_ok :: "session \<Rightarrow> modal_state \<Rightarrow> bool" where
  "outward_ok sess st =
     list_all (\<lambda>i. i \<in> set (map oe_id (outwardOptions sess))) (fd_outwardEntryIds (formData st))"

text \<open>The server answers consistently: the inward entries an invoice lists are linked to
  that invoice.\<close>

fun consistent_response :: "db \<Rightarrow> event \<Rightarrow> bool" where
  "consistent_response d (AppendConfirm (Inr fullInvoice)) =
     list_all (\<lambda>e. ie_id e \<in> set (or_default (iv_inwardEntries fullInvoice) [])
                    \<longrightarrow> ie_invoiceId e = Some (iv_id fullInvoice)) (inwardEntry d)"
| "consistent_response d ev = True"

text \<open>What a submission after the given events links: the invoice updated (none for a new
  invoice) and the inward entry ids sent.\<close>

definition submitted_inward :: "session \<Rightarrow> event list \<Rightarrow> (string option \<times> string list) option" where
  "submitted_inward sess evs =
     (case run sess evs (initial_state sess) of
        None \<Rightarrow> None
      | Some st \<Rightarrow>
          (case handleSubmit sess st of
             Rejected reason \<Rightarrow> None
           | UpdateInvoice i p \<Rightarrow> Some (Some i, or_default (pl_inwardEntryIds p) [])
           | CreateInvoice p \<Rightarrow> Some (None, or_default (pl_inwardEntryIds p) [])))"

text \<open>How the checkbox of an inward entry is rendered after the given events: checked,
  disabled.\<close>

definition rendered_checkbox ::
    "session \<Rightarrow> event list \<Rightarrow> entry_list_item \<Rightarrow> (bool \<times> bool) option" where
  "rendered_checkbox sess evs entry =
     map_option (\<lambda>st. (isSelected st entry, isDisabled st entry))
       (run sess evs (initial_state sess))"

section \<open>Example data\<close>

definition ex_company :: company where
  "ex_company = \<lparr> co_id = ''c1'', co_name = ''Acme'', co_gstNumber = None, co_address = None \<rparr>"

definition ex_entry :: "string \<Rightarrow> string \<Rightarrow> inward_entry" where
  "ex_entry i lot =
     \<lparr> ie_id = i, ie_srNo = 1, ie_date = 0, ie_lotNo = Some lot, ie_companyId = ''c1'',
       ie_manifestNo = ''M-1'', ie_vehicleNo = None, ie_wasteName = ''Sludge'', ie_rate = None,
       ie_category = None, ie_quantity = 5, ie_unit = ''kg'', ie_month = None,
       ie_invoiceId = None, ie_createdAt = 0 \<rparr>"

definition ex_db :: db where
  "ex_db = \<lparr> inwardEntry = [ex_entry ''e1'' ''LOT-1'', ex_entry ''e2'' ''LOT-2'',
                              ex_entry ''e3'' ''LOT-3''],
             companyT = [ex_company], invoiceT = [], inwardMaterialT = [] \<rparr>"

definition ex_query :: "int \<Rightarrow> query_options" where
  "ex_query lmt = \<lparr> q_page = Some 1, q_limit = Some lmt, q_search = None, q_companyId = None,
                    q_startDate = None, q_endDate = None, q_sortBy = None, q_sortOrder = None \<rparr>"

definition ex_env :: env where
  "ex_env = \<lparr> env_year = 2026, env_month = 3, env_now = 100, env_newId = ''e9'' \<rparr>"

definition ex_data :: "string js_field \<Rightarrow> string js_field \<Rightarrow> entry_data" where
  "ex_data cid lot =
     \<lparr> ed_date = Val 10, ed_companyId = cid, ed_manifestNo = Val ''M-7'',
       ed_vehicleNo = Undefined, ed_wasteName = Val ''Ash'', ed_rate = Undefined,
       ed_category = Undefined, ed_quantity = Val 2, ed_unit = Val ''kg'', ed_month = Undefined,
       ed_lotNo = lot, ed_srNo = Undefined \<rparr>"

definition ex_update :: "string js_field \<Rightarrow> update_data" where
  "ex_update lot =
     \<lparr> ud_date = Undefined, ud_companyId = Undefined, ud_manifestNo = Undefined,
       ud_vehicleNo = Undefined, ud_wasteName = Undefined, ud_rate = Undefined,
       ud_category = Undefined, ud_quantity = Undefined, ud_unit = Undefined,
       ud_month = Undefined, ud_lotNo = lot \<rparr>"

definition ex_material :: "string js_object" where
  "ex_material = [(''id'', ''m1''), (''materialName'', ''Sludge''), (''rate'', ''12.5''), (''unit'', ''kg'')]"

definition ex_company_obj :: "string company_obj" where
  "ex_company_obj = \<lparr> materials = Val [ex_material], other_props = [(''name'', ''Acme'')] \<rparr>"

definition ex_companies_result :: "string companies_result" where
  "ex_companies_result =
     \<lparr> companies = [ex_company_obj],
       companies_pagination = \<lparr> pg_page = 1, pg_limit = 20, pg_total = 1, pg_totalPages = Num 1,
                                 pg_hasNext = False, pg_hasPrev = False \<rparr> \<rparr>"

definition ex_form :: form_data where
  "ex_form =
     \<lparr> fd_date = ''2026-03-01'', fd_companyId = ''c1'', fd_transporterId = [],
       fd_customerName = ''Acme'',
       fd_materials = [\<lparr> m_materialName = ''Sludge'', m_rate = Some 10, m_unit = Some ''kg'',
                         m_quantity = Some 5, m_amount = Some 50, m_manifestNo = Some ''M-1'',
                         m_description = None \<rparr>],
       fd_manifestNos = [''M-1''], fd_inwardEntryIds = [''e1''], fd_outwardEntryIds = [],
       fd_subtotal = 0, fd_cgstRate = Some (Fin 9), fd_sgstRate = None, fd_gstNo = [],
       fd_billedTo = [], fd_shippedTo = [], fd_description = [],
       fd_additionalCharges = 50, fd_additionalChargesDescription = [], fd_applyGst = True \<rparr>"

definition ex_invoice :: "string \<Rightarrow> string \<Rightarrow> invoice" where
  "ex_invoice i status =
     \<lparr> iv_id = i, iv_invoiceNo = ''INV-'' @ i, iv_type = Inward, iv_companyId = Some ''c1'',
       iv_status = status,
       iv_invoiceMaterials = Some [\<lparr> imat_materialName = ''Ash'', imat_rate = Some 4,
                                     imat_unit = Some ''kg'', imat_quantity = Some 5,
                                     imat_amount = Some 20, imat_manifestNo = Some ''M-1'',
                                     imat_description = None \<rparr>],
       iv_invoiceManifests = Some [''M-1''], iv_inwardEntries = Some [''e1''],
       iv_customerName = Some ''Acme'', iv_gstNo = None, iv_billedTo = None, iv_shippedTo = None,
       iv_description = None, iv_subtotal = 20, iv_cgst = None, iv_sgst = None,
       iv_additionalCharges = None, iv_additionalChargesDescription = None,
       iv_paymentReceived = None, iv_paymentReceivedOn = None \<rparr>"

definition ex_invoices :: "invoice list" where
  "ex_invoices = [ex_invoice ''i6'' ''paid'', ex_invoice ''i5'' ''paid'', ex_invoice ''i4'' ''paid'',
                  ex_invoice ''i3'' ''paid'', ex_invoice ''i2'' ''paid'',
                  ex_invoice ''i1'' ''pending'']"

definition ex_session :: session where
  "ex_session = \<lparr> s_type = Inward, s_preselectedEntryIds = [], s_today = ''2026-03-01'',
                  s_db = ex_db, s_outwardEntries = [] \<rparr>"

definition ex_state :: modal_state where
  "ex_state = (initial_state ex_session)
                \<lparr> formData := ex_form, existingInvoice := Some (ex_invoice ''i1'' ''pending''),
                  showAppendAlert := True \<rparr>"

definition ex_invoiced_entry :: inward_entry where
  "ex_invoiced_entry = (ex_entry ''e1'' ''LOT-1'')\<lparr> ie_invoiceId := Some ''i1'' \<rparr>"

definition ex_db2 :: db where
  "ex_db2 = ex_db\<lparr> inwardEntry :=
      [ex_invoiced_entry, ex_entry ''e2'' ''LOT-2'',
       (ex_entry ''e3'' ''LOT-3'')\<lparr> ie_invoiceId := Some ''i9'' \<rparr>] \<rparr>"

definition ex_session2 :: session where
  "ex_session2 = \<lparr> s_type = Inward, s_preselectedEntryIds = [], s_today = ''2026-03-01'',
                   s_db = ex_db2,
                   s_outwardEntries = [\<lparr> oe_id = ''o1'', oe_manifestNo = Some ''M-8'',
                                          oe_invoiceId = None \<rparr>,
                                       \<lparr> oe_id = ''o2'', oe_manifestNo = Some ''M-9'',
                                          oe_invoiceId = Some ''i7'' \<rparr>] \<rparr>"

definition ex_item2 :: "nat \<Rightarrow> entry_list_item" where
  "ex_item2 n = list_include ex_db2 (inwardEntry ex_db2 ! n)"

definition ex_append_events :: "event list" where
  "ex_append_events = [SelectCompany ''c1'' (Inr [ex_invoice ''i1'' ''pending'']),
                       AppendConfirm (Inr (ex_invoice ''i1'' ''pending'')),
                       ToggleInwardEntry (ex_item2 1)]"

definition ex_create_events :: "event list" where
  "ex_create_events = [SelectCompany ''c1'' (Inr [ex_invoice ''i1'' ''paid'']),
                       ToggleInwardEntry (ex_item2 1)]"

definition ex_session3 :: session where
  "ex_session3 = ex_session2\<lparr> s_preselectedEntryIds := [''e1''] \<rparr>"

definition ex_preselect_events :: "event list" where
  "ex_preselect_events = [PreselectEffect (Inr [ex_invoice ''i1'' ''paid'']), EditSubtotal 100]"

definition ex_toggle_invoiced_events :: "event list" where
  "ex_toggle_invoiced_events = [SelectCompany ''c1'' (Inr [ex_invoice ''i1'' ''paid'']),
                                ToggleInwardEntry (ex_item2 0)]"

section \<open>Pagination\<close>

lemma ceil_div_bounds:
  fixes k :: int and n :: nat
  assumes "0 < k"
  shows "(\<lceil>(of_nat n :: rat) / of_int k\<rceil> - 1) * k < int n"
    and "int n \<le> \<lceil>(of_nat n :: rat) / of_int k\<rceil> * k"
proof -
  let ?q = "(of_nat n :: rat) / of_int k"
  have kpos: "(0::rat) < of_int k" using assms by simp
  have "of_int \<lceil>?q\<rceil> - 1 < ?q" by linarith
  with kpos have "(of_int \<lceil>?q\<rceil> - 1) * of_int k < (of_nat n :: rat)"
    by (simp only: pos_less_divide_eq)
  then have "(of_int ((\<lceil>?q\<rceil> - 1) * k) :: rat) < of_int (int n)" by simp
  then show "(\<lceil>?q\<rceil> - 1) * k < int n" by (simp only: of_int_less_iff)
  have "?q \<le> of_int \<lceil>?q\<rceil>" by linarith
  with kpos have "(of_nat n :: rat) \<le> of_int \<lceil>?q\<rceil> * of_int k"
    by (simp only: pos_divide_le_eq)
  then have "(of_int (int n) :: rat) \<le> of_int (\<lceil>?q\<rceil> * k)" by simp
  then show "int n \<le> \<lceil>?q\<rceil> * k" by (simp only: of_int_le_iff)
qed

lemma getAllEntries_Inr:
  assumes "getAllEntries d opts = Inr r"
  shows "pg_total (res_pagination r) = length (filter (where_clause opts) (inwardEntry d))"
    and "pg_limit (res_pagination r) = or_default (q_limit opts) 20"
    and "pg_totalPages (res_pagination r)
           = Math_ceil_div (pg_total (res_pagination r)) (pg_limit (res_pagination r))"
  using assms by (auto simp: getAllEntries_def Let_def split: if_splits)

lemma getAllEntries_returns:
  assumes "1 \<le> or_default (q_page opts) 1" and "0 \<le> or_default (q_limit opts) 20"
  shows "\<exists>r. getAllEntries d opts = Inr r"
proof -
  have "0 \<le> (or_default (q_page opts) 1 - 1) * or_default (q_limit opts) 20"
    using assms by (intro mult_nonneg_nonneg) simp_all
  then show ?thesis by (simp add: getAllEntries_def Let_def)
qed

text \<open>
  C1. For every list query that returns, \<open>total\<close> is the number of entries matching the
  filters, \<open>limit\<close> is the page size, and \<open>totalPages = ceil(total / limit)\<close>: for a
  non-zero page size it is the integer ceiling of the quotient (for a positive one, the least
  number of pages of that size holding \<open>total\<close> entries), and for page size zero it is
  the value of \<open>Math.ceil(total / 0)\<close>, \<open>Infinity\<close> or \<open>NaN\<close>.
\<close>

theorem getAllEntries_totalPages:
  assumes "getAllEntries d opts = Inr r"
  shows "pg_total (res_pagination r) = length (filter (where_clause opts) (inwardEntry d))
       \<and> pg_limit (res_pagination r) = or_default (q_limit opts) 20
       \<and> (pg_limit (res_pagination r) \<noteq> 0 \<longrightarrow>
            pg_totalPages (res_pagination r)
              = Num \<lceil>(of_nat (pg_total (res_pagination r)) :: rat)
                       / of_int (pg_limit (res_pagination r))\<rceil>)
       \<and> (0 < pg_limit (res_pagination r) \<longrightarrow>
            (\<exists>n. pg_totalPages (res_pagination r) = Num n
                 \<and> (n - 1) * pg_limit (res_pagination r) < int (pg_total (res_pagination r))
                 \<and> int (pg_total (res_pagination r)) \<le> n * pg_limit (res_pagination r)))
       \<and> (pg_limit (res_pagination r) = 0 \<longrightarrow>
            pg_totalPages (res_pagination r)
              = (if pg_total (res_pagination r) = 0 then NaN else Infinity))"
proof -
  let ?p = "res_pagination r"
  have tp: "pg_totalPages ?p = Math_ceil_div (pg_total ?p) (pg_limit ?p)"
    using assms by (rule getAllEntries_Inr(3))
  have c3: "pg_limit ?p \<noteq> 0 \<longrightarrow>
      pg_totalPages ?p = Num \<lceil>(of_nat (pg_total ?p) :: rat) / of_int (pg_limit ?p)\<rceil>"
    using tp by (simp add: Math_ceil_div_def)
  have c4: "0 < pg_limit ?p \<longrightarrow>
      (\<exists>n. pg_totalPages ?p = Num n \<and> (n - 1) * pg_limit ?p < int (pg_total ?p)
           \<and> int (pg_total ?p) \<le> n * pg_limit ?p)"
  proof
    assume pos: "0 < pg_limit ?p"
    then have "pg_totalPages ?p = Num \<lceil>(of_nat (pg_total ?p) :: rat) / of_int (pg_limit ?p)\<rceil>"
      using c3 by simp
    with ceil_div_bounds[OF pos, of "pg_total ?p"]
    show "\<exists>n. pg_totalPages ?p = Num n \<and> (n - 1) * pg_limit ?p < int (pg_total ?p)
           \<and> int (pg_total ?p) \<le> n * pg_limit ?p" by blast
  qed
  have c5: "pg_limit ?p = 0 \<longrightarrow>
      pg_totalPages ?p = (if pg_total ?p = 0 then NaN else Infinity)"
    using tp by (simp add: Math_ceil_div_def)
  from getAllEntries_Inr(1)[OF assms] getAllEntries_Inr(2)[OF assms] c3 c4 c5
  show ?thesis by blast
qed

lemma ex_query_result:
  "\<exists>r. getAllEntries ex_db (ex_query 2) = Inr r"
  by (simp add: getAllEntries_def Let_def ex_query_def or_default_def)

theorem getAllEntries_totalPages_witness:
  "\<exists>r. getAllEntries ex_db (ex_query 2) = Inr r
      \<and> pg_total (res_pagination r) = 3 \<and> pg_limit (res_pagination r) = 2
      \<and> pg_totalPages (res_pagination r) = Num 2"
proof -
  obtain r where r: "getAllEntries ex_db (ex_query 2) = Inr r"
    using ex_query_result by blast
  have tot: "length (filter (where_clause (ex_query 2)) (inwardEntry ex_db)) = 3"
    by (simp add: where_clause_def ex_query_def ex_db_def opt_truthy_def)
  have lim: "or_default (q_limit (ex_query 2)) 20 = 2"
    by (simp add: ex_query_def or_default_def)
  from getAllEntries_totalPages[OF r] tot lim
  obtain n where "pg_total (res_pagination r) = 3" "pg_limit (res_pagination r) = 2"
     "pg_totalPages (res_pagination r) = Num n" "(n - 1) * 2 < 3" "3 \<le> n * 2"
    by auto
  moreover then have "n = 2" by presburger
  ultimately show ?thesis using r by blast
qed

section \<open>Error kinds of the inward service\<close>

lemma find_key_None: "(find (\<lambda>x. f x = v) xs = None) = (v \<notin> set (map f xs))"
  by (induction xs) auto

lemma find_None_ids: "(find (\<lambda>e. ie_id e = i) rows = None) = (i \<notin> set (map ie_id rows))"
  by (rule find_key_None)

lemma getEntryById_NotFound_iff:
  "(getEntryById d i = Inl (NotFoundError ''Inward entry'')) = (i \<notin> set (map ie_id (inwardEntry d)))"
  unfolding getEntryById_def find_None_ids[symmetric]
  by (simp split: option.splits)

lemma getEntryById_Inl_iff:
  "(\<exists>err. getEntryById d i = Inl err) = (i \<notin> set (map ie_id (inwardEntry d)))"
  unfolding getEntryById_def find_None_ids[symmetric]
  by (simp split: option.splits)

lemma getEntryById_cases:
  obtains (missing) "i \<notin> set (map ie_id (inwardEntry d))"
                    "getEntryById d i = Inl (NotFoundError ''Inward entry'')"
        | (found) e where "find (\<lambda>e. ie_id e = i) (inwardEntry d) = Some e"
                    "i \<in> set (map ie_id (inwardEntry d))"
                    "getEntryById d i = Inr (entry_include d e)"
proof (cases "find (\<lambda>e. ie_id e = i) (inwardEntry d)")
  case None
  then have "i \<notin> set (map ie_id (inwardEntry d))"
    using find_None_ids by blast
  moreover from None have "getEntryById d i = Inl (NotFoundError ''Inward entry'')"
    by (simp add: getEntryById_def)
  ultimately show ?thesis by (rule missing)
next
  case (Some e)
  then have "i \<in> set (map ie_id (inwardEntry d))"
    using find_None_ids[of i "inwardEntry d"] by simp
  moreover from Some have "getEntryById d i = Inr (entry_include d e)"
    by (simp add: getEntryById_def)
  ultimately show ?thesis using Some by (rule found[rotated])
qed

lemma prisma_update_error: "prisma_update d i e = Inl err \<Longrightarrow> \<exists>m. err = InternalError m"
  by (auto simp: prisma_update_def split: if_splits)

lemma prisma_create_error: "prisma_create d e = Inl err \<Longrightarrow> \<exists>m. err = InternalError m"
  by (auto simp: prisma_create_def split: if_splits)

lemma updateEntry_NotFound_iff:
  "(\<exists>m. fst (updateEntry d i u) = Inl (NotFoundError m)) = (i \<notin> set (map ie_id (inwardEntry d)))"
proof (cases d i rule: getEntryById_cases)
  case missing
  then show ?thesis by (simp add: updateEntry_def)
next
  case (found e)
  have "\<not> (\<exists>m. fst (updateEntry d i u) = Inl (NotFoundError m))"
    using found(3)
    by (auto simp: updateEntry_def Let_def split: if_splits sum.splits dest: prisma_update_error)
  with found(2) show ?thesis by simp
qed

lemma deleteEntry_NotFound_iff:
  "(\<exists>m. fst (deleteEntry d i) = Inl (NotFoundError m)) = (i \<notin> set (map ie_id (inwardEntry d)))"
proof (cases d i rule: getEntryById_cases)
  case missing
  then show ?thesis by (simp add: deleteEntry_def)
next
  case (found e)
  then show ?thesis by (simp add: deleteEntry_def)
qed

lemma field_missing_truthy:
  "field_missing x \<Longrightarrow> \<not> truthy_str x"
  "field_missing y \<Longrightarrow> \<not> truthy_num y"
  "field_missing z \<Longrightarrow> \<not> truthy_date z"
  by (auto simp: field_missing_def)

lemma createEntry_missing:
  assumes "field_missing (ed_date ed) \<or> field_missing (ed_companyId ed)
         \<or> field_missing (ed_manifestNo ed) \<or> field_missing (ed_wasteName ed)
         \<or> field_missing (ed_quantity ed) \<or> field_missing (ed_unit ed)"
  shows "createEntry ev d ed = (Inl (ValidationError
            ''Date, company, manifest number, waste name, quantity, and unit are required''), d)"
proof -
  have "required_missing ed"
    using assms field_missing_truthy unfolding required_missing_def by blast
  then show ?thesis by (simp add: createEntry_def)
qed

lemma createEntry_no_company:
  assumes "\<not> required_missing ed"
      and "val_of (ed_companyId ed) [] \<notin> set (map co_id (companyT d))"
  shows "createEntry ev d ed = (Inl (NotFoundError ''Company''), d)"
proof -
  have "find (\<lambda>c. co_id c = val_of (ed_companyId ed) []) (companyT d) = None"
    using assms(2) find_key_None[of co_id] by blast
  with assms(1) show ?thesis by (simp add: createEntry_def)
qed

text \<open>
  C6. \<open>getEntryById\<close> fails exactly when no entry has the given id, and then with the
  not-found error; \<open>updateEntry\<close> and \<open>deleteEntry\<close> raise a not-found error exactly in
  that case. \<open>createEntry\<close> raises a validation error when one of date, company, manifest
  number, waste name, quantity or unit is missing, and, when all required fields are given,
  a not-found error when the referenced company does not exist.
\<close>

theorem inward_error_kinds:
  "(getEntryById d i = Inl (NotFoundError ''Inward entry'')) = (i \<notin> set (map ie_id (inwardEntry d)))
   \<and> (\<exists>err. getEntryById d i = Inl err) = (i \<notin> set (map ie_id (inwardEntry d)))
   \<and> (\<exists>m. fst (updateEntry d i u) = Inl (NotFoundError m)) = (i \<notin> set (map ie_id (inwardEntry d)))
   \<and> (\<exists>m. fst (deleteEntry d i) = Inl (NotFoundError m)) = (i \<notin> set (map ie_id (inwardEntry d)))
   \<and> (field_missing (ed_date ed) \<or> field_missing (ed_companyId ed)
        \<or> field_missing (ed_manifestNo ed) \<or> field_missing (ed_wasteName ed)
        \<or> field_missing (ed_quantity ed) \<or> field_missing (ed_unit ed)
       \<longrightarrow> (\<exists>m. fst (createEntry ev d ed) = Inl (ValidationError m)))
   \<and> (\<not> required_missing ed \<and> val_of (ed_companyId ed) [] \<notin> set (map co_id (companyT d))
       \<longrightarrow> fst (createEntry ev d ed) = Inl (NotFoundError ''Company''))"
  using getEntryById_NotFound_iff[of d i] getEntryById_Inl_iff[of d i]
        updateEntry_NotFound_iff[of d i u] deleteEntry_NotFound_iff[of d i]
        createEntry_missing[of ed ev d] createEntry_no_company[of ed d ev]
  by (metis fst_conv)

theorem inward_error_kinds_witness:
  "getEntryById ex_db ''zz'' = Inl (NotFoundError ''Inward entry'')
   \<and> (\<exists>m. fst (createEntry ex_env ex_db (ex_data Undefined Undefined)) = Inl (ValidationError m))
   \<and> fst (createEntry ex_env ex_db (ex_data (Val ''c9'') Undefined)) = Inl (NotFoundError ''Company'')"
proof -
  have a: "''zz'' \<notin> set (map ie_id (inwardEntry ex_db))"
    by (simp add: ex_db_def ex_entry_def)
  have b: "field_missing (ed_companyId (ex_data Undefined Undefined))"
    by (simp add: ex_data_def field_missing_def)
  have c: "\<not> required_missing (ex_data (Val ''c9'') Undefined)"
    by (simp add: ex_data_def required_missing_def)
  have d: "val_of (ed_companyId (ex_data (Val ''c9'') Undefined)) [] \<notin> set (map co_id (companyT ex_db))"
    by (simp add: ex_data_def ex_db_def ex_company_def)
  from a b
    inward_error_kinds[where d = ex_db and i = "''zz''" and ev = ex_env
        and ed = "ex_data Undefined Undefined" and u = "ex_update Undefined"]
  have "getEntryById ex_db ''zz'' = Inl (NotFoundError ''Inward entry'')"
       "\<exists>m. fst (createEntry ex_env ex_db (ex_data Undefined Undefined)) = Inl (ValidationError m)"
    by blast+
  moreover from c d
    inward_error_kinds[where d = ex_db and i = "''zz''" and ev = ex_env
        and ed = "ex_data (Val ''c9'') Undefined" and u = "ex_update Undefined"]
  have "fst (createEntry ex_env ex_db (ex_data (Val ''c9'') Undefined)) = Inl (NotFoundError ''Company'')"
    by blast
  ultimately show ?thesis by blast
qed

section \<open>Response envelopes\<close>

lemma createEntry_Inr_stored:
  assumes "createEntry ev d body = (Inr e, d')"
  shows "d' = d\<lparr> inwardEntry := inwardEntry d @ [cr_entry e] \<rparr>"
    and "ie_id (cr_entry e) = env_newId ev"
  using assms
  by (auto simp: createEntry_def Let_def prisma_create_def
           split: if_splits option.splits sum.splits)

lemma createEntry_controller_Inr:
  assumes "createEntry ev d body = (Inr e, d')"
  shows "createEntry_controller ev d body =
           (Respond 201 \<lparr> success = True, data = Some (EntryObject e), pagination = None,
                           message = ''Inward entry created successfully'' \<rparr>, d')"
  using assms by (simp add: createEntry_controller_def)

lemma createEntry_controller_Inl:
  assumes "createEntry ev d body = (Inl err, d')"
  shows "createEntry_controller ev d body = (Next err, d')"
  using assms by (simp add: createEntry_controller_def)

lemma getAllEntries_controller_Inr:
  assumes "getAllEntries d q = Inr r"
  shows "getAllEntries_controller d q =
           Respond 200 \<lparr> success = True, data = Some (res_entries r),
                          pagination = Some (res_pagination r),
                          message = ''Inward entries retrieved successfully'' \<rparr>"
  using assms by (simp add: getAllEntries_controller_def)

text \<open>
  C7. Successful responses use the envelope \<open>{success, data, pagination?, message}\<close>:
  when the service creates an entry, the controller answers with status 201 and a body with
  \<open>success = true\<close>, the created (and stored) entry under \<open>data\<close> and a message; when the
  list query returns, the controller answers with \<open>success = true\<close>, the entries under
  \<open>data\<close> and the pagination object.
\<close>

theorem inward_response_envelopes:
  "(createEntry ev d body = (Inr e, d') \<longrightarrow>
      createEntry_controller ev d body =
        (Respond 201 \<lparr> success = True, data = Some (EntryObject e), pagination = None,
                        message = ''Inward entry created successfully'' \<rparr>, d')
      \<and> d' = d\<lparr> inwardEntry := inwardEntry d @ [cr_entry e] \<rparr>)
   \<and> (getAllEntries d q = Inr r \<longrightarrow>
      getAllEntries_controller d q =
        Respond 200 \<lparr> success = True, data = Some (res_entries r),
                       pagination = Some (res_pagination r),
                       message = ''Inward entries retrieved successfully'' \<rparr>)"
  using createEntry_controller_Inr[of ev d body e d'] createEntry_Inr_stored(1)[of ev d body e d']
        getAllEntries_controller_Inr[of d q r]
  by blast

lemma ex_create_ok:
  "\<exists>e d'. createEntry ex_env ex_db (ex_data (Val ''c1'') (Val ''LOT-9'')) = (Inr e, d')"
  by (simp add: createEntry_def Let_def ex_data_def ex_db_def ex_company_def ex_entry_def
        required_missing_def finalLotNo_def prisma_create_def lot_taken_def ex_env_def)

theorem inward_response_envelopes_witness:
  "\<exists>e d' (r::entries_result). createEntry_controller ex_env ex_db (ex_data (Val ''c1'') (Val ''LOT-9'')) =
        (Respond 201 \<lparr> success = True, data = Some (EntryObject e), pagination = None,
                        message = ''Inward entry created successfully'' \<rparr>, d')
     \<and> getAllEntries_controller ex_db (ex_query 2) =
        Respond 200 \<lparr> success = True, data = Some (res_entries r),
                       pagination = Some (res_pagination r),
                       message = ''Inward entries retrieved successfully'' \<rparr>"
proof -
  obtain e d' where c: "createEntry ex_env ex_db (ex_data (Val ''c1'') (Val ''LOT-9'')) = (Inr e, d')"
    using ex_create_ok by blast
  obtain r where q: "getAllEntries ex_db (ex_query 2) = Inr r"
    using ex_query_result by blast
  note t = inward_response_envelopes[of ex_env ex_db "ex_data (Val ''c1'') (Val ''LOT-9'')" e d'
      "ex_query 2" r]
  note A = t[THEN conjunct1, rule_format, OF c, THEN conjunct1]
  note B = t[THEN conjunct2, rule_format, OF q]
  show ?thesis
    by (rule exI[of _ e], rule exI[of _ d'], rule exI[of _ r], rule conjI[OF A B])
qed

section \<open>The payment endpoint\<close>

lemma updatePayment_snd: "snd (updatePayment d i p) = d"
  by (simp add: updatePayment_def split: sum.splits)

lemma updatePayment_fst: "fst (updatePayment d i p) = getEntryById d i"
  by (simp add: updatePayment_def split: sum.splits)

lemma updatePayment_controller_snd: "snd (updatePayment_controller d i p) = d"
  using updatePayment_snd[of d i p]
  by (cases "updatePayment d i p") (auto simp: updatePayment_controller_def split: sum.splits)

lemma entry_include_entry: "ev_entry (entry_include d e) = e"
  by (simp add: entry_include_def)

text \<open>
  C10. \<open>updatePayment\<close> writes nothing: the database after the call is the database
  before it, for the service and for the controller. For an existing entry the service returns
  the stored entry (with its relations) and the controller answers 200 with the message
  \<open>Payment updated successfully\<close>; for an unknown id the not-found error is raised.
\<close>

theorem updatePayment_no_write:
  "snd (updatePayment d i p) = d
   \<and> snd (updatePayment_controller d i p) = d
   \<and> (i \<notin> set (map ie_id (inwardEntry d)) \<longrightarrow>
        fst (updatePayment d i p) = Inl (NotFoundError ''Inward entry'')
        \<and> fst (updatePayment_controller d i p) = Next (NotFoundError ''Inward entry''))
   \<and> (find (\<lambda>e. ie_id e = i) (inwardEntry d) = Some e \<longrightarrow>
        fst (updatePayment d i p) = Inr (entry_include d e)
        \<and> ev_entry (entry_include d e) = e
        \<and> fst (updatePayment_controller d i p) =
            Respond 200 \<lparr> success = True, data = Some (EntryObject (entry_include d e)),
                           pagination = None, message = ''Payment updated successfully'' \<rparr>)"
proof -
  have nf: "i \<notin> set (map ie_id (inwardEntry d)) \<longrightarrow>
        fst (updatePayment d i p) = Inl (NotFoundError ''Inward entry'')
        \<and> fst (updatePayment_controller d i p) = Next (NotFoundError ''Inward entry'')"
  proof
    assume "i \<notin> set (map ie_id (inwardEntry d))"
    then have "getEntryById d i = Inl (NotFoundError ''Inward entry'')"
      using getEntryById_NotFound_iff by blast
    then show "fst (updatePayment d i p) = Inl (NotFoundError ''Inward entry'')
        \<and> fst (updatePayment_controller d i p) = Next (NotFoundError ''Inward entry'')"
      by (simp add: updatePayment_def updatePayment_controller_def)
  qed
  have ok: "find (\<lambda>e. ie_id e = i) (inwardEntry d) = Some e \<longrightarrow>
        fst (updatePayment d i p) = Inr (entry_include d e)
        \<and> ev_entry (entry_include d e) = e
        \<and> fst (updatePayment_controller d i p) =
            Respond 200 \<lparr> success = True, data = Some (EntryObject (entry_include d e)),
                           pagination = None, message = ''Payment updated successfully'' \<rparr>"
    by (simp add: updatePayment_def updatePayment_controller_def getEntryById_def
          entry_include_entry)
  from updatePayment_snd[of d i p] updatePayment_controller_snd[of d i p] nf ok
  show ?thesis by blast
qed

theorem updatePayment_no_write_witness:
  "fst (updatePayment ex_db ''e2'' (42::nat)) = Inr (entry_include ex_db (ex_entry ''e2'' ''LOT-2''))
   \<and> snd (updatePayment ex_db ''e2'' (42::nat)) = ex_db
   \<and> fst (updatePayment ex_db ''zz'' (42::nat)) = Inl (NotFoundError ''Inward entry'')"
proof -
  have a: "find (\<lambda>e. ie_id e = ''e2'') (inwardEntry ex_db) = Some (ex_entry ''e2'' ''LOT-2'')"
    by (simp add: ex_db_def ex_entry_def)
  have b: "''zz'' \<notin> set (map ie_id (inwardEntry ex_db))"
    by (simp add: ex_db_def ex_entry_def)
  from a updatePayment_no_write[of ex_db "''e2''" "42::nat" "ex_entry ''e2'' ''LOT-2''"]
  have "fst (updatePayment ex_db ''e2'' (42::nat)) = Inr (entry_include ex_db (ex_entry ''e2'' ''LOT-2''))"
       "snd (updatePayment ex_db ''e2'' (42::nat)) = ex_db"
    by blast+
  moreover from b updatePayment_no_write[of ex_db "''zz''" "42::nat" "ex_entry ''e2'' ''LOT-2''"]
  have "fst (updatePayment ex_db ''zz'' (42::nat)) = Inl (NotFoundError ''Inward entry'')"
    by blast
  ultimately show ?thesis by blast
qed

section \<open>Lot number uniqueness\<close>

lemma find_lot_None:
  "(find (\<lambda>e. ie_lotNo e = Some l) rows = None) = (Some l \<notin> set (map ie_lotNo rows))"
  by (rule find_key_None)

lemma lot_prefix_nonempty: "lot_prefix ev \<noteq> []"
  by (simp add: lot_prefix_def)

lemma generateLotNo_nonempty: "generateLotNo ev d \<noteq> []"
  by (simp add: generateLotNo_def Let_def lot_prefix_nonempty split: list.splits option.splits)

lemma finalLotNo_nonempty: "finalLotNo ev d ed \<noteq> []"
  by (cases "ed_lotNo ed") (simp_all add: finalLotNo_def generateLotNo_nonempty)

lemma createEntry_duplicate_lot:
  assumes "\<not> required_missing ed"
      and "val_of (ed_companyId ed) [] \<in> set (map co_id (companyT d))"
      and "Some (finalLotNo ev d ed) \<in> set (map ie_lotNo (inwardEntry d))"
  shows "createEntry ev d ed = (Inl (ValidationError ''Lot number already exists''), d)"
proof -
  obtain c where c: "find (\<lambda>c. co_id c = val_of (ed_companyId ed) []) (companyT d) = Some c"
    using assms(2) find_key_None[of co_id "val_of (ed_companyId ed) []" "companyT d"] by auto
  have "find (\<lambda>e. ie_lotNo e = Some (finalLotNo ev d ed)) (inwardEntry d) \<noteq> None"
    using assms(3) find_lot_None by blast
  with assms(1) c finalLotNo_nonempty[of ev d ed] show ?thesis
    by (simp add: createEntry_def Let_def)
qed

lemma createEntry_error_no_write:
  "fst (createEntry ev d ed) = Inl err \<Longrightarrow> snd (createEntry ev d ed) = d"
  by (auto simp: createEntry_def Let_def split: if_splits option.splits sum.splits)

lemma updateEntry_duplicate_lot:
  assumes "i \<in> set (map ie_id (inwardEntry d))"
      and "ud_lotNo u = Val l" and "l \<noteq> []"
      and "e \<in> set (inwardEntry d)" and "ie_lotNo e = Some l" and "ie_id e \<noteq> i"
  shows "updateEntry d i u = (Inl (ValidationError ''Lot number already exists''), d)"
proof -
  obtain cur where cur: "getEntryById d i = Inr cur"
    using assms(1) by (cases d i rule: getEntryById_cases) auto
  have "find (\<lambda>e. ie_lotNo e = Some l \<and> ie_id e \<noteq> i) (inwardEntry d) \<noteq> None"
    using assms(4,5,6) by (auto simp: find_None_iff)
  with cur assms(2,3) show ?thesis by (simp add: updateEntry_def)
qed

lemma updateEntry_error_no_write:
  "fst (updateEntry d i u) = Inl err \<Longrightarrow> snd (updateEntry d i u) = d"
  by (auto simp: updateEntry_def Let_def split: if_splits sum.splits)

text \<open>
  C2. \<open>createEntry\<close> looks up exactly the lot number it stores, and fails with the
  validation error when it is taken (\<open>createEntry_duplicate_lot\<close>); failures leave the
  database as it was (\<open>createEntry_error_no_write\<close>, \<open>updateEntry_error_no_write\<close>).
  \<open>updateEntry\<close> looks up \<open>updateData.lotNo\<close> as given but stores it trimmed: with entries
  \<open>e1\<close> (lot \<open>LOT-1\<close>) and \<open>e2\<close> (lot \<open>LOT-2\<close>), updating \<open>e2\<close> with the lot number
  \<open>LOT-1\<close> followed by a space passes the check, the new lot number \<open>LOT-1\<close> belongs to
  \<open>e1\<close>, and no validation error is raised: the write is stopped by the unique index only.
\<close>

theorem updateEntry_untrimmed_lotNo:
  "ie_lotNo (ex_entry ''e1'' ''LOT-1'') = Some ''LOT-1''
   \<and> trim_or_null (Val ''LOT-1 '') = Some ''LOT-1''
   \<and> updateEntry ex_db ''e2'' (ex_update (Val ''LOT-1 ''))
       = (Inl (InternalError ''Unique constraint failed''), ex_db)"
  by (simp add: updateEntry_def getEntryById_def ex_db_def ex_entry_def ex_update_def
        update_data_invalid_def update_fields_def prisma_update_def lot_taken_def
        trim_def is_ws_def Let_def)

section \<open>Material rates and roles\<close>

lemma strip_rate_no_rate: "\<not> has_rate (strip_rate m)"
  by (auto simp: has_rate_def strip_rate_def)

lemma strip_rate_other_keys: "k \<noteq> ''rate'' \<Longrightarrow> map_of (strip_rate m) k = map_of m k"
  unfolding strip_rate_def by (induction m) auto

lemma strip_rate_sublist: "set (strip_rate m) = {kv \<in> set m. fst kv \<noteq> ''rate''}"
  by (auto simp: strip_rate_def)

lemma strip_company_materials:
  "company_materials (strip_company c) = map strip_rate (company_materials c)"
  by (cases "materials c") (simp_all add: strip_company_def company_materials_def)

lemma strip_company_no_rate:
  "\<forall>m \<in> set (company_materials (strip_company c)). \<not> has_rate m"
  by (simp add: strip_company_materials strip_rate_no_rate)

lemma strip_company_other: "other_props (strip_company c) = other_props c"
  by (cases "materials c") (simp_all add: strip_company_def)

lemma nonadmin_company_step:
  "role \<noteq> Some ''admin'' \<Longrightarrow>
     (if role = Some ''admin'' \<or> \<not> truthy_array (materials c) then c
      else c\<lparr> materials := Val (map strip_rate (val_of (materials c) [])) \<rparr>) = strip_company c"
  by (cases "materials c") (simp_all add: strip_company_def)

lemma getAllCompanies_nonadmin:
  assumes "role \<noteq> Some ''admin''"
  shows "getAllCompanies role (Inr res) =
           Respond 200 \<lparr> success = True, data = Some (map strip_company (companies res)),
                          pagination = Some (companies_pagination res),
                          message = ''Companies retrieved successfully'' \<rparr>"
proof -
  have "map (\<lambda>company. if role = Some ''admin'' \<or> \<not> truthy_array (materials company)
                   then company
                   else company\<lparr> materials :=
                          Val (map strip_rate (val_of (materials company) [])) \<rparr>) (companies res)
        = map strip_company (companies res)"
    by (rule map_cong[OF refl]) (rule nonadmin_company_step[OF assms])
  then show ?thesis by (simp add: getAllCompanies_def)
qed

lemma getAllCompanies_admin:
  "getAllCompanies (Some ''admin'') (Inr res) =
           Respond 200 \<lparr> success = True, data = Some (companies res),
                          pagination = Some (companies_pagination res),
                          message = ''Companies retrieved successfully'' \<rparr>"
  by (simp add: getAllCompanies_def)

lemma getCompanyById_nonadmin:
  assumes "role \<noteq> Some ''admin''"
  shows "getCompanyById role (Inr (Some c)) =
           Respond 200 \<lparr> success = True, data = Some (CompanyObject (Some (strip_company c))),
                          pagination = None, message = ''Company retrieved successfully'' \<rparr>"
  using assms by (cases "materials c") (simp_all add: getCompanyById_def strip_company_def)

lemma getCompanyById_admin:
  "getCompanyById (Some ''admin'') (Inr co) =
           Respond 200 \<lparr> success = True, data = Some (CompanyObject co),
                          pagination = None, message = ''Company retrieved successfully'' \<rparr>"
  by (simp add: getCompanyById_def split: option.splits)

lemma getCompanyMaterials_nonadmin:
  assumes "role \<noteq> Some ''admin''"
  shows "getCompanyMaterials role (Inr ms) =
           Respond 200 \<lparr> success = True, data = Some (MaterialsObject (map strip_rate ms)),
                          pagination = None, message = ''Materials retrieved successfully'' \<rparr>"
  using assms by (simp add: getCompanyMaterials_def)

lemma getCompanyMaterials_admin:
  "getCompanyMaterials (Some ''admin'') (Inr ms) =
           Respond 200 \<lparr> success = True, data = Some (MaterialsObject ms),
                          pagination = None, message = ''Materials retrieved successfully'' \<rparr>"
  by (simp add: getCompanyMaterials_def)

text \<open>
  C8. For a user whose role is not \<open>admin\<close>, the bodies of \<open>getAllCompanies\<close>,
  \<open>getCompanyById\<close> and \<open>getCompanyMaterials\<close> carry the service's companies and materials
  with every material stripped of its \<open>rate\<close> property, so no material in them has a
  \<open>rate\<close>; for an admin they carry the service's result unchanged. Stripping removes the
  \<open>rate\<close> property and nothing else: all other properties of a material, and the other
  properties of a company, are the same in both runs.
\<close>

theorem material_rate_stripping:
  "(role \<noteq> Some ''admin'' \<longrightarrow>
       getAllCompanies role (Inr res) =
         Respond 200 \<lparr> success = True, data = Some (map strip_company (companies res)),
                        pagination = Some (companies_pagination res),
                        message = ''Companies retrieved successfully'' \<rparr>
     \<and> getCompanyById role (Inr (Some c)) =
         Respond 200 \<lparr> success = True, data = Some (CompanyObject (Some (strip_company c))),
                        pagination = None, message = ''Company retrieved successfully'' \<rparr>
     \<and> getCompanyMaterials role (Inr ms) =
         Respond 200 \<lparr> success = True, data = Some (MaterialsObject (map strip_rate ms)),
                        pagination = None, message = ''Materials retrieved successfully'' \<rparr>)
   \<and> getAllCompanies (Some ''admin'') (Inr res) =
         Respond 200 \<lparr> success = True, data = Some (companies res),
                        pagination = Some (companies_pagination res),
                        message = ''Companies retrieved successfully'' \<rparr>
   \<and> getCompanyById (Some ''admin'') (Inr (Some c)) =
         Respond 200 \<lparr> success = True, data = Some (CompanyObject (Some c)),
                        pagination = None, message = ''Company retrieved successfully'' \<rparr>
   \<and> getCompanyMaterials (Some ''admin'') (Inr ms) =
         Respond 200 \<lparr> success = True, data = Some (MaterialsObject ms),
                        pagination = None, message = ''Materials retrieved successfully'' \<rparr>
   \<and> company_materials (strip_company c) = map strip_rate (company_materials c)
   \<and> (\<forall>m' \<in> set (company_materials (strip_company c)). \<not> has_rate m')
   \<and> other_props (strip_company c) = other_props c
   \<and> \<not> has_rate (strip_rate m)
   \<and> set (strip_rate m) = {kv \<in> set m. fst kv \<noteq> ''rate''}
   \<and> (k \<noteq> ''rate'' \<longrightarrow> map_of (strip_rate m) k = map_of m k)"
  using getAllCompanies_nonadmin[of role res] getCompanyById_nonadmin[of role c]
    getCompanyMaterials_nonadmin[of role ms]
    getAllCompanies_admin[of res] getCompanyById_admin[of "Some c"] getCompanyMaterials_admin[of ms]
    strip_company_materials[of c] strip_company_no_rate[of c] strip_company_other[of c]
    strip_rate_no_rate[of m] strip_rate_sublist[of m] strip_rate_other_keys[of k m]
  by (intro conjI impI) assumption+

theorem material_rate_stripping_witness:
  "getCompanyMaterials (Some ''user'') (Inr [ex_material]) =
     Respond 200 \<lparr> success = True,
        data = Some (MaterialsObject [[(''id'', ''m1''), (''materialName'', ''Sludge''), (''unit'', ''kg'')]]),
        pagination = None, message = ''Materials retrieved successfully'' \<rparr>
   \<and> map_of (strip_rate ex_material) ''unit'' = Some ''kg''"
proof -
  have r: "Some ''user'' \<noteq> Some ''admin''" by simp
  have k: "''unit'' \<noteq> ''rate''" by simp
  note t = material_rate_stripping[of "Some ''user''" ex_companies_result ex_company_obj
      "[ex_material]" ex_material "''unit''"]
  from t[THEN conjunct1, rule_format, OF r]
  have a: "getCompanyMaterials (Some ''user'') (Inr [ex_material]) =
         Respond 200 \<lparr> success = True, data = Some (MaterialsObject (map strip_rate [ex_material])),
                        pagination = None, message = ''Materials retrieved successfully'' \<rparr>"
    by simp
  have s: "map strip_rate [ex_material] =
      [[(''id'', ''m1''), (''materialName'', ''Sludge''), (''unit'', ''kg'')]]"
    by (simp add: strip_rate_def ex_material_def)
  from t k have b: "map_of (strip_rate ex_material) ''unit'' = map_of ex_material ''unit''"
    by blast
  have c: "map_of ex_material ''unit'' = Some ''kg''" by (simp add: ex_material_def)
  from a s b c show ?thesis by simp
qed

section \<open>Invoice totals\<close>

lemma plus_number_Fin: "plus_number (plus_number (Fin a) (Fin b)) (Fin c) = Fin (a + b + c)"
  by simp

lemma grandTotal_sum:
  "grandTotal fd = plus_number (plus_number (Fin (subtotal fd + additionalCharges fd)) (cgst fd)) (sgst fd)"
  by (simp add: grandTotal_def baseForTax_def)

lemma tax_finite:
  assumes "cgstRateValue fd = Fin rc" and "sgstRateValue fd = Fin rs"
  shows "cgst fd = Fin ((subtotal fd + additionalCharges fd) * rc / 100)"
    and "sgst fd = Fin ((subtotal fd + additionalCharges fd) * rs / 100)"
    and "grandTotal fd = Fin (subtotal fd + additionalCharges fd
                              + (subtotal fd + additionalCharges fd) * rc / 100
                              + (subtotal fd + additionalCharges fd) * rs / 100)"
  using assms by (simp_all add: grandTotal_def cgst_def sgst_def baseForTax_def)

lemma tax_rates:
  "fd_applyGst fd \<Longrightarrow> cgstRateValue fd = or_default (fd_cgstRate fd) (Fin 9)"
  "fd_applyGst fd \<Longrightarrow> sgstRateValue fd = or_default (fd_sgstRate fd) (Fin 9)"
  "\<not> fd_applyGst fd \<Longrightarrow> cgstRateValue fd = Fin 0"
  "\<not> fd_applyGst fd \<Longrightarrow> sgstRateValue fd = Fin 0"
  by (simp_all add: cgstRateValue_def sgstRateValue_def)

lemma no_gst:
  assumes "\<not> fd_applyGst fd"
  shows "cgst fd = Fin 0" and "sgst fd = Fin 0"
    and "grandTotal fd = Fin (subtotal fd + additionalCharges fd)"
  using assms
  by (simp_all add: grandTotal_def cgst_def sgst_def baseForTax_def cgstRateValue_def
        sgstRateValue_def)

text \<open>
  C3. For every state of the form, the grand total is subtotal + additional charges + CGST +
  SGST, where CGST and SGST are (subtotal + additional charges) times the respective rate
  divided by 100; with \<open>applyGst\<close> the rate is the form's rate (9 when none is set), and
  without it both tax terms are zero. The amounts are exact rationals; for finite rates the
  total is the finite sum.
\<close>

theorem invoice_grand_total:
  "grandTotal fd
     = plus_number (plus_number (Fin (subtotal fd + additionalCharges fd)) (cgst fd)) (sgst fd)
   \<and> (cgstRateValue fd = Fin rc \<and> sgstRateValue fd = Fin rs \<longrightarrow>
        cgst fd = Fin ((subtotal fd + additionalCharges fd) * rc / 100)
      \<and> sgst fd = Fin ((subtotal fd + additionalCharges fd) * rs / 100)
      \<and> grandTotal fd = Fin (subtotal fd + additionalCharges fd
                              + (subtotal fd + additionalCharges fd) * rc / 100
                              + (subtotal fd + additionalCharges fd) * rs / 100))
   \<and> (fd_applyGst fd \<longrightarrow>
        cgstRateValue fd = or_default (fd_cgstRate fd) (Fin 9)
      \<and> sgstRateValue fd = or_default (fd_sgstRate fd) (Fin 9))
   \<and> (\<not> fd_applyGst fd \<longrightarrow>
        cgst fd = Fin 0 \<and> sgst fd = Fin 0
      \<and> grandTotal fd = Fin (subtotal fd + additionalCharges fd))"
  using grandTotal_sum[of fd] tax_finite[of fd rc rs] tax_rates[of fd] no_gst[of fd]
  by blast

theorem invoice_grand_total_witness:
  "subtotal ex_form = 50 \<and> additionalCharges ex_form = 50
   \<and> cgst ex_form = Fin 9 \<and> sgst ex_form = Fin 9 \<and> grandTotal ex_form = Fin 118
   \<and> cgst (ex_form\<lparr> fd_applyGst := False \<rparr>) = Fin 0
   \<and> grandTotal (ex_form\<lparr> fd_applyGst := False \<rparr>) = Fin 100"
proof -
  have s: "subtotal ex_form = 50" "additionalCharges ex_form = 50"
    by (simp_all add: subtotal_def additionalCharges_def material_sum_def ex_form_def or_default_def)
  have s': "subtotal (ex_form\<lparr> fd_applyGst := False \<rparr>) = 50"
           "additionalCharges (ex_form\<lparr> fd_applyGst := False \<rparr>) = 50"
    by (simp_all add: subtotal_def additionalCharges_def material_sum_def ex_form_def or_default_def)
  have g: "fd_applyGst ex_form" by (simp add: ex_form_def)
  have r: "or_default (fd_cgstRate ex_form) (Fin 9) = Fin 9"
          "or_default (fd_sgstRate ex_form) (Fin 9) = Fin 9"
    by (simp_all add: ex_form_def or_default_def)
  note t = invoice_grand_total[of ex_form 9 9]
  from t g r have rates: "cgstRateValue ex_form = Fin 9" "sgstRateValue ex_form = Fin 9"
    by simp_all
  with t s have a: "cgst ex_form = Fin 9" "sgst ex_form = Fin 9" "grandTotal ex_form = Fin 118"
    by simp_all
  have ng: "\<not> fd_applyGst (ex_form\<lparr> fd_applyGst := False \<rparr>)" by simp
  from invoice_grand_total[of "ex_form\<lparr> fd_applyGst := False \<rparr>" 0 0] ng s'
  have b: "cgst (ex_form\<lparr> fd_applyGst := False \<rparr>) = Fin 0"
          "grandTotal (ex_form\<lparr> fd_applyGst := False \<rparr>) = Fin 100"
    by simp_all
  from s a b show ?thesis by simp
qed

section \<open>Appending to an existing invoice\<close>

lemma foldl_set_add_set: "set (foldl set_add acc xs) = set acc \<union> set xs"
  by (induction xs arbitrary: acc) (auto simp: set_add_def)


lemma set_new_Set: "set (new_Set xs) = set xs"
  by (simp add: new_Set_def foldl_set_add_set)


lemma foldl_amount_acc:
  "foldl (\<lambda>acc m. acc + or_default (m_amount m) 0) a ms
     = a + foldl (\<lambda>acc m. acc + or_default (m_amount m) 0) 0 ms"
proof (induction ms arbitrary: a)
  case Nil
  show ?case by simp
next
  case (Cons m ms)
  show ?case
    using Cons.IH[of "a + or_default (m_amount m) 0"] Cons.IH[of "or_default (m_amount m) 0"]
    by simp
qed

lemma material_sum_append: "material_sum (xs @ ys) = material_sum xs + material_sum ys"
  unfolding material_sum_def using foldl_amount_acc[of "foldl (\<lambda>acc m. acc + or_default (m_amount m) 0) 0 xs" ys]
  by simp

lemma checkExistingInvoice_offered:
  assumes "s_type sess = Inward" and "fd_companyId (formData st) \<noteq> []"
  shows "appendOffered (checkExistingInvoice sess (Inr invoices) st)
           = list_ex (\<lambda>v. iv_status v \<noteq> ''paid'') invoices"
proof (cases "find (\<lambda>inv. iv_status inv \<noteq> ''paid'') invoices")
  case None
  then have "\<not> list_ex (\<lambda>v. iv_status v \<noteq> ''paid'') invoices"
    by (auto simp: find_None_iff list_ex_iff)
  with None assms show ?thesis
    by (simp add: checkExistingInvoice_def appendOffered_def)
next
  case (Some c)
  then have "list_ex (\<lambda>v. iv_status v \<noteq> ''paid'') invoices"
    by (auto simp: find_Some_iff list_ex_iff)
  with Some assms show ?thesis
    by (simp add: checkExistingInvoice_def appendOffered_def)
qed

lemma selectCompany_companyId:
  "selectCompany sess cid response st
     = checkExistingInvoice sess response
         (st\<lparr> formData := (formData st)
               \<lparr> fd_companyId := cid,
                 fd_customerName := (case find (\<lambda>c. co_id c = cid) (companyT (s_db sess)) of
                                       None \<Rightarrow> [] | Some c \<Rightarrow> co_name c),
                 fd_gstNo := (case find (\<lambda>c. co_id c = cid) (companyT (s_db sess)) of
                                None \<Rightarrow> [] | Some c \<Rightarrow> str_or (co_gstNumber c) []),
                 fd_billedTo := (case find (\<lambda>c. co_id c = cid) (companyT (s_db sess)) of
                                   None \<Rightarrow> [] | Some c \<Rightarrow> str_or (co_address c) []),
                 fd_shippedTo := (case find (\<lambda>c. co_id c = cid) (companyT (s_db sess)) of
                                    None \<Rightarrow> [] | Some c \<Rightarrow> str_or (co_address c) []),
                 fd_inwardEntryIds := [], fd_materials := [], fd_manifestNos := [],
                 fd_subtotal := 0 \<rparr> \<rparr>)"
  by (simp add: selectCompany_def Let_def)

lemma selectCompany_offered:
  assumes "s_type sess = Inward" and "cid \<noteq> []"
  shows "appendOffered (selectCompany sess cid (Inr invoices) st)
           = list_ex (\<lambda>v. iv_status v \<noteq> ''paid'') invoices"
  unfolding selectCompany_companyId
  by (rule checkExistingInvoice_offered) (simp_all add: assms)

lemma getInvoices_open:
  "list_ex (\<lambda>v. iv_status v \<noteq> ''paid'') (getInvoices invs cid Inward lmt)
     \<Longrightarrow> has_open_invoice invs cid"
  by (auto simp: getInvoices_def has_open_invoice_def list_ex_iff dest!: in_set_takeD)

lemma handleAppendConfirm_merge:
  assumes "existingInvoice st = Some ex"
  shows "isAppendMode (handleAppendConfirm (Inr full) st)"
    and "\<not> showAppendAlert (handleAppendConfirm (Inr full) st)"
    and "formData (handleAppendConfirm (Inr full) st) = merge_invoice full (formData st)"
  using assms by (simp_all add: handleAppendConfirm_def Let_def)

lemma merge_invoice_lists:
  "fd_materials (merge_invoice full prev)
     = map material_of (or_default (iv_invoiceMaterials full) []) @ fd_materials prev"
  "fd_manifestNos (merge_invoice full prev)
     = new_Set (or_default (iv_invoiceManifests full) [] @ fd_manifestNos prev)"
  "fd_inwardEntryIds (merge_invoice full prev)
     = new_Set (or_default (iv_inwardEntries full) [] @ fd_inwardEntryIds prev)"
  by (simp_all add: merge_invoice_def Let_def)

text \<open>
  C4, as stated, fails: the check reads only the five invoices the list query returns
  (\<open>limit: 5\<close>). A company whose five most recent Inward invoices are paid and whose sixth
  is pending has a non-fully-paid invoice, and no append is offered.
\<close>

theorem append_offer_counterexample:
  "has_open_invoice ex_invoices ''c1''
   \<and> \<not> appendOffered (selectCompany ex_session ''c1''
                          (Inr (getInvoices ex_invoices ''c1'' Inward 5))
                          (initial_state ex_session))"
proof -
  have a: "has_open_invoice ex_invoices ''c1''"
    by (simp add: has_open_invoice_def ex_invoices_def ex_invoice_def)
  have t: "s_type ex_session = Inward" by (simp add: ex_session_def)
  have g: "getInvoices ex_invoices ''c1'' Inward 5
             = [ex_invoice ''i6'' ''paid'', ex_invoice ''i5'' ''paid'', ex_invoice ''i4'' ''paid'',
                ex_invoice ''i3'' ''paid'', ex_invoice ''i2'' ''paid'']"
    by (simp add: getInvoices_def ex_invoices_def ex_invoice_def)
  have "\<not> list_ex (\<lambda>v. iv_status v \<noteq> ''paid'') (getInvoices ex_invoices ''c1'' Inward 5)"
    unfolding g by (simp add: ex_invoice_def)
  with selectCompany_offered[OF t, of "''c1''"] a show ?thesis by simp
qed

text \<open>
  C4, amended. After an Inward company is selected and the list query (company, type Inward,
  limit 5) has answered, the append option is offered exactly when one of the returned
  invoices has a status other than \<open>paid\<close>; then the company has a non-fully-paid Inward
  invoice. On confirmation the form is in append mode and holds the merge: the existing
  invoice's materials followed by the form's, the union of the manifest numbers and of the
  entry links, and subtotal, taxes and total computed from the merged form.
\<close>

theorem append_offer_and_merge:
  "(s_type sess = Inward \<and> cid \<noteq> [] \<longrightarrow>
      appendOffered (selectCompany sess cid (Inr (getInvoices invs cid Inward 5)) st)
        = list_ex (\<lambda>v. iv_status v \<noteq> ''paid'') (getInvoices invs cid Inward 5)
      \<and> (appendOffered (selectCompany sess cid (Inr (getInvoices invs cid Inward 5)) st)
           \<longrightarrow> has_open_invoice invs cid))
   \<and> (existingInvoice st' = Some ex \<longrightarrow>
        isAppendMode (handleAppendConfirm (Inr full) st')
      \<and> formData (handleAppendConfirm (Inr full) st') = merge_invoice full (formData st'))
   \<and> fd_materials (merge_invoice full prev)
        = map material_of (or_default (iv_invoiceMaterials full) []) @ fd_materials prev
   \<and> set (fd_manifestNos (merge_invoice full prev))
        = set (or_default (iv_invoiceManifests full) []) \<union> set (fd_manifestNos prev)
   \<and> set (fd_inwardEntryIds (merge_invoice full prev))
        = set (or_default (iv_inwardEntries full) []) \<union> set (fd_inwardEntryIds prev)
   \<and> material_sum (fd_materials (merge_invoice full prev))
        = material_sum (map material_of (or_default (iv_invoiceMaterials full) []))
          + material_sum (fd_materials prev)
   \<and> subtotal (merge_invoice full prev)
        = (if material_sum (fd_materials (merge_invoice full prev)) \<noteq> 0
           then material_sum (fd_materials (merge_invoice full prev)) else fd_subtotal prev)
   \<and> grandTotal (merge_invoice full prev)
        = plus_number (plus_number (Fin (subtotal (merge_invoice full prev)
                                         + additionalCharges (merge_invoice full prev)))
                                   (cgst (merge_invoice full prev)))
                      (sgst (merge_invoice full prev))"
proof -
  have offer: "s_type sess = Inward \<and> cid \<noteq> [] \<longrightarrow>
      appendOffered (selectCompany sess cid (Inr (getInvoices invs cid Inward 5)) st)
        = list_ex (\<lambda>v. iv_status v \<noteq> ''paid'') (getInvoices invs cid Inward 5)
      \<and> (appendOffered (selectCompany sess cid (Inr (getInvoices invs cid Inward 5)) st)
           \<longrightarrow> has_open_invoice invs cid)"
    using selectCompany_offered[of sess cid "getInvoices invs cid Inward 5" st]
          getInvoices_open[of invs cid 5]
    by blast
  have conf: "existingInvoice st' = Some ex \<longrightarrow>
        isAppendMode (handleAppendConfirm (Inr full) st')
      \<and> formData (handleAppendConfirm (Inr full) st') = merge_invoice full (formData st')"
    using handleAppendConfirm_merge[of st' ex full] by blast
  have sub: "subtotal (merge_invoice full prev)
        = (if material_sum (fd_materials (merge_invoice full prev)) \<noteq> 0
           then material_sum (fd_materials (merge_invoice full prev)) else fd_subtotal prev)"
    by (simp add: subtotal_def merge_invoice_def Let_def)
  have msum: "material_sum (fd_materials (merge_invoice full prev))
        = material_sum (map material_of (or_default (iv_invoiceMaterials full) []))
          + material_sum (fd_materials prev)"
    by (simp only: merge_invoice_lists material_sum_append)
  have sets: "set (fd_manifestNos (merge_invoice full prev))
        = set (or_default (iv_invoiceManifests full) []) \<union> set (fd_manifestNos prev)"
      "set (fd_inwardEntryIds (merge_invoice full prev))
        = set (or_default (iv_inwardEntries full) []) \<union> set (fd_inwardEntryIds prev)"
    by (simp_all add: merge_invoice_lists set_new_Set)
  from offer conf merge_invoice_lists(1)[of full prev] sets msum sub
       grandTotal_sum[of "merge_invoice full prev"]
  show ?thesis by (intro conjI)
qed

theorem append_offer_and_merge_witness:
  "appendOffered (selectCompany ex_session ''c1''
                    (Inr (getInvoices (rev ex_invoices) ''c1'' Inward 5)) (initial_state ex_session))
   \<and> isAppendMode (handleAppendConfirm (Inr (ex_invoice ''i1'' ''pending'')) ex_state)
   \<and> formData (handleAppendConfirm (Inr (ex_invoice ''i1'' ''pending'')) ex_state)
        = merge_invoice (ex_invoice ''i1'' ''pending'') ex_form
   \<and> subtotal (merge_invoice (ex_invoice ''i1'' ''pending'') ex_form) = 70"
proof -
  note t = append_offer_and_merge[of ex_session "''c1''" "rev ex_invoices" "initial_state ex_session"
      ex_state "ex_invoice ''i1'' ''pending''" "ex_invoice ''i1'' ''pending''" ex_form]
  have h1: "s_type ex_session = Inward \<and> ''c1'' \<noteq> []" by (simp add: ex_session_def)
  have h2: "list_ex (\<lambda>v. iv_status v \<noteq> ''paid'') (getInvoices (rev ex_invoices) ''c1'' Inward 5)"
    by (simp add: getInvoices_def ex_invoices_def ex_invoice_def)
  have h3: "existingInvoice ex_state = Some (ex_invoice ''i1'' ''pending'')"
    by (simp add: ex_state_def)
  have f: "formData ex_state = ex_form" by (simp add: ex_state_def)
  from t h1 h2 have a: "appendOffered (selectCompany ex_session ''c1''
                    (Inr (getInvoices (rev ex_invoices) ''c1'' Inward 5)) (initial_state ex_session))"
    by blast
  from t h3 f have b: "isAppendMode (handleAppendConfirm (Inr (ex_invoice ''i1'' ''pending'')) ex_state)"
     "formData (handleAppendConfirm (Inr (ex_invoice ''i1'' ''pending'')) ex_state)
        = merge_invoice (ex_invoice ''i1'' ''pending'') ex_form"
    by simp_all
  have m1: "material_sum (map material_of (or_default (iv_invoiceMaterials (ex_invoice ''i1'' ''pending'')) [])) = 20"
    by (simp add: ex_invoice_def or_default_def material_of_def material_sum_def)
  have m2: "material_sum (fd_materials ex_form) = 50"
    by (simp add: ex_form_def or_default_def material_sum_def)
  note t6 = t[THEN conjunct2, THEN conjunct2, THEN conjunct2, THEN conjunct2, THEN conjunct2]
  have "material_sum (fd_materials (merge_invoice (ex_invoice ''i1'' ''pending'') ex_form)) = 70"
    using t6[THEN conjunct1] by (simp only: m1 m2)
  then have c: "subtotal (merge_invoice (ex_invoice ''i1'' ''pending'') ex_form) = 70"
    using t6[THEN conjunct2, THEN conjunct1] by simp
  from a b c show ?thesis by (intro conjI)
qed

section \<open>Reachable states of the form\<close>

lemma syncPaymentAmount_frame:
  "formData (syncPaymentAmount st) = formData st"
  "isAppendMode (syncPaymentAmount st) = isAppendMode st"
  "existingInvoice (syncPaymentAmount st) = existingInvoice st"
  by (simp_all add: syncPaymentAmount_def)

lemma checkExistingInvoice_formData:
  "formData (checkExistingInvoice sess response st) = formData st"
  by (simp add: checkExistingInvoice_def split: sum.splits option.splits)

lemma selectCompany_ids:
  "fd_inwardEntryIds (formData (selectCompany sess cid response st)) = []"
  "fd_outwardEntryIds (formData (selectCompany sess cid response st))
     = fd_outwardEntryIds (formData st)"
  by (simp_all add: selectCompany_def Let_def checkExistingInvoice_formData)

lemma preselectEffect_ids:
  "fd_inwardEntryIds (formData (preselectEffect sess response st)) = fd_inwardEntryIds (formData st)
   \<and> isAppendMode (preselectEffect sess response st) = isAppendMode st
   \<and> existingInvoice (preselectEffect sess response st) = existingInvoice st
   \<or> fd_inwardEntryIds (formData (preselectEffect sess response st)) = s_preselectedEntryIds sess"
  by (simp add: preselectEffect_def Let_def checkExistingInvoice_formData split: list.splits)

lemma preselectEffect_outward:
  "fd_outwardEntryIds (formData (preselectEffect sess response st))
     = fd_outwardEntryIds (formData st)"
  by (simp add: preselectEffect_def Let_def checkExistingInvoice_formData split: list.splits)

lemma toggle_ids:
  "fd_inwardEntryIds (formData (toggleInwardEntry entry checked st))
     = (if checked then fd_inwardEntryIds (formData st) @ [ie_id (li_entry entry)]
        else filter (\<lambda>i. i \<noteq> ie_id (li_entry entry)) (fd_inwardEntryIds (formData st)))"
  "isAppendMode (toggleInwardEntry entry checked st) = isAppendMode st"
  "existingInvoice (toggleInwardEntry entry checked st) = existingInvoice st"
  "fd_outwardEntryIds (formData (toggleInwardEntry entry checked st))
     = fd_outwardEntryIds (formData st)"
  by (simp_all add: toggleInwardEntry_def Let_def)

lemma handleAppendConfirm_cases:
  assumes "existingInvoice st = Some ex"
  shows "isAppendMode (handleAppendConfirm response st)"
    and "existingInvoice (handleAppendConfirm response st) = Some ex"
    and "formData (handleAppendConfirm response st)
           = (case response of Inl err \<Rightarrow> formData st
              | Inr fullInvoice \<Rightarrow> merge_invoice fullInvoice (formData st))"
  using assms by (simp_all add: handleAppendConfirm_def Let_def split: sum.splits)

lemma merge_invoice_outward:
  "fd_outwardEntryIds (merge_invoice full prev) = fd_outwardEntryIds prev"
  by (simp add: merge_invoice_def Let_def)

lemma editText_ids:
  "fd_inwardEntryIds (editText f v fd) = fd_inwardEntryIds fd"
  "fd_outwardEntryIds (editText f v fd) = fd_outwardEntryIds fd"
  by (cases f; simp add: editText_def)+

lemma plain_event_frame:
  assumes "plain_event ev"
  shows "fd_inwardEntryIds (formData (handle sess ev st)) = fd_inwardEntryIds (formData st)"
    and "fd_outwardEntryIds (formData (handle sess ev st)) = fd_outwardEntryIds (formData st)"
    and "isAppendMode (handle sess ev st) = isAppendMode st"
    and "existingInvoice (handle sess ev st) = existingInvoice st"
  using assms
  by (cases ev; simp add: selectTransporter_def settingsEffect_def removeMaterial_def
        updateMaterial_def Let_def editText_ids setPaymentReceived_def)+

subsection \<open>No duplicate entry links\<close>






lemma updatePayload_lists:
  "pl_manifestNos (updatePayload st) = Some (new_Set (fd_manifestNos (formData st)))"
  "pl_inwardEntryIds (updatePayload st) = Some (fd_inwardEntryIds (formData st))"
  by (simp_all add: updatePayload_def Let_def)

lemma handleSubmit_Update:
  assumes "handleSubmit sess st = UpdateInvoice i p"
  shows "p = updatePayload st" and "isAppendMode st"
    and "map_option iv_id (existingInvoice st) = Some i"
  using assms
  by (auto simp: handleSubmit_def Let_def split: if_splits option.splits)

lemma handleSubmit_Create:
  assumes "handleSubmit sess st = CreateInvoice p"
  shows "p = createPayload sess st" and "\<not> (isAppendMode st \<and> existingInvoice st \<noteq> None)"
  using assms
  by (auto simp: handleSubmit_def Let_def split: if_splits option.splits)


lemma set_skip_take: "set (skip_take n k xs) \<subseteq> set xs"
proof (cases "0 \<le> k")
  case True
  then show ?thesis
    using set_take_subset[of "nat k" "drop n xs"] set_drop_subset[of n xs]
    by (auto simp: skip_take_def)
next
  case False
  then show ?thesis
    using set_take_subset[of "nat (- k)" "drop n (rev xs)"] set_drop_subset[of n "rev xs"]
    by (auto simp: skip_take_def)
qed

lemma set_orderBy: "set (orderBy f ord xs) = set xs"
  by (cases ord) (simp_all add: orderBy_def)

lemma li_entry_list_include: "li_entry (list_include d e) = e"
  by (simp add: list_include_def)

lemma getAllEntries_entries_subset:
  assumes "getAllEntries d opts = Inr r" and "item \<in> set (res_entries r)"
  shows "li_entry item \<in> set (inwardEntry d)"
proof -
  from assms obtain e n k f ord where item: "item = list_include d e"
    and e: "e \<in> set (skip_take n k (orderBy f ord (filter (where_clause opts) (inwardEntry d))))"
    by (auto simp: getAllEntries_def Let_def split: if_splits)
  from e have "e \<in> set (orderBy f ord (filter (where_clause opts) (inwardEntry d)))"
    by (rule subsetD[OF set_skip_take])
  then have "e \<in> set (inwardEntry d)" by (simp add: set_orderBy)
  with item show ?thesis by (simp add: li_entry_list_include)
qed

lemma inwardEntries_subset:
  assumes "item \<in> set (inwardEntries sess st)"
  shows "li_entry item \<in> set (inwardEntry (s_db sess))"
proof (cases "getAllEntries (s_db sess)
             \<lparr> q_page = None, q_limit = Some 100, q_search = None,
               q_companyId = (if fd_companyId (formData st) = [] then None
                              else Some (fd_companyId (formData st))),
               q_startDate = None, q_endDate = None, q_sortBy = None, q_sortOrder = None \<rparr>")
  case (Inl err)
  with assms show ?thesis by (simp add: inwardEntries_def)
next
  case (Inr r)
  with assms have "item \<in> set (res_entries r)" by (simp add: inwardEntries_def)
  with Inr show ?thesis by (rule getAllEntries_entries_subset)
qed

lemma links_ok_iff:
  "links_ok sess st = (\<forall>e \<in> set (inwardEntry (s_db sess)).
       ie_id e \<in> set (fd_inwardEntryIds (formData st)) \<longrightarrow> entry_linkable sess st e)"
  by (simp add: links_ok_def list_all_iff)

lemma links_ok_frame:
  assumes "links_ok sess st"
      and "fd_inwardEntryIds (formData st') = fd_inwardEntryIds (formData st)"
      and "isAppendMode st' = isAppendMode st"
      and "existingInvoice st' = existingInvoice st"
  shows "links_ok sess st'"
  using assms by (simp add: links_ok_iff entry_linkable_def)

lemma unique_id:
  assumes "distinct (map ie_id rows)" and "a \<in> set rows" and "b \<in> set rows"
      and "ie_id a = ie_id b"
  shows "a = b"
  using assms by (meson distinct_map inj_onD)

lemma handle_links_ok:
  assumes uniq: "distinct (map ie_id (inwardEntry (s_db sess)))"
      and inv: "links_ok sess st"
      and en: "enabled sess st ev"
      and cons: "consistent_response (s_db sess) ev"
  shows "links_ok sess (handle sess ev st)"
proof (cases "plain_event ev")
  case True
  show ?thesis
    by (rule links_ok_frame[OF inv]) (simp_all add: plain_event_frame[OF True])
next
  case False
  then show ?thesis
  proof (cases ev)
    case (SelectCompany cid response)
    then show ?thesis by (simp add: links_ok_iff selectCompany_ids)
  next
    case (PreselectEffect response)
    from preselectEffect_ids[of sess response st] show ?thesis
    proof
      assume "fd_inwardEntryIds (formData (preselectEffect sess response st))
                = fd_inwardEntryIds (formData st)
              \<and> isAppendMode (preselectEffect sess response st) = isAppendMode st
              \<and> existingInvoice (preselectEffect sess response st) = existingInvoice st"
      then show ?thesis unfolding PreselectEffect handle.simps
        by (intro links_ok_frame[OF inv]) simp_all
    next
      assume "fd_inwardEntryIds (formData (preselectEffect sess response st))
                = s_preselectedEntryIds sess"
      then show ?thesis unfolding PreselectEffect handle.simps
        by (simp add: links_ok_iff entry_linkable_def)
    qed
  next
    case (AppendConfirm response)
    with en have off: "appendOffered st" by simp
    then obtain ex where ex: "existingInvoice st = Some ex" and na: "\<not> isAppendMode st"
      by (auto simp: appendOffered_def)
    note h = handleAppendConfirm_cases[OF ex, of response]
    show ?thesis
    proof (cases response)
      case (Inl err)
      with h(3) have ids: "fd_inwardEntryIds (formData (handleAppendConfirm response st))
                            = fd_inwardEntryIds (formData st)" by simp
      show ?thesis unfolding AppendConfirm handle.simps links_ok_iff
      proof (intro ballI impI)
        fix e assume e: "e \<in> set (inwardEntry (s_db sess))"
          and "ie_id e \<in> set (fd_inwardEntryIds (formData (handleAppendConfirm response st)))"
        then have "ie_id e \<in> set (fd_inwardEntryIds (formData st))" by (simp only: ids)
        with inv e have "entry_linkable sess st e" by (simp add: links_ok_iff)
        with na show "entry_linkable sess (handleAppendConfirm response st) e"
          by (auto simp: entry_linkable_def)
      qed
    next
      case (Inr full)
      with en AppendConfirm ex have idf: "iv_id full = iv_id ex" by simp
      from cons AppendConfirm Inr
      have c: "\<forall>e \<in> set (inwardEntry (s_db sess)).
                 ie_id e \<in> set (or_default (iv_inwardEntries full) [])
                   \<longrightarrow> ie_invoiceId e = Some (iv_id full)"
        by (simp add: list_all_iff)
      from h(3) Inr have ids: "set (fd_inwardEntryIds (formData (handleAppendConfirm response st)))
               = set (or_default (iv_inwardEntries full) []) \<union> set (fd_inwardEntryIds (formData st))"
        by (simp add: merge_invoice_lists set_new_Set)
      show ?thesis unfolding AppendConfirm handle.simps links_ok_iff
      proof (intro ballI impI)
        fix e assume e: "e \<in> set (inwardEntry (s_db sess))"
          and "ie_id e \<in> set (fd_inwardEntryIds (formData (handleAppendConfirm response st)))"
        then consider "ie_id e \<in> set (or_default (iv_inwardEntries full) [])"
          | "ie_id e \<in> set (fd_inwardEntryIds (formData st))"
          unfolding ids by blast
        then show "entry_linkable sess (handleAppendConfirm response st) e"
        proof cases
          case 1
          with c e have "ie_invoiceId e = Some (iv_id ex)" by (simp add: idf)
          with h(1,2) show ?thesis by (simp add: entry_linkable_def)
        next
          case 2
          with inv e have "entry_linkable sess st e" by (simp add: links_ok_iff)
          with na show ?thesis by (auto simp: entry_linkable_def)
        qed
      qed
    qed
  next
    case (ToggleInwardEntry entry)
    with en have mem: "entry \<in> set (inwardEntries sess st)" and nd: "\<not> isDisabled st entry"
      by simp_all
    from mem have indb: "li_entry entry \<in> set (inwardEntry (s_db sess))"
      by (rule inwardEntries_subset)
    from nd have ok: "entry_linkable sess st (li_entry entry)"
      by (auto simp: isDisabled_def isInvoiced_def isLinkedToCurrent_def entry_linkable_def
               split: option.splits)
    show ?thesis unfolding ToggleInwardEntry handle.simps links_ok_iff
    proof (intro ballI impI)
      fix e assume e: "e \<in> set (inwardEntry (s_db sess))"
        and i: "ie_id e \<in> set (fd_inwardEntryIds
                   (formData (toggleInwardEntry entry (\<not> isSelected st entry) st)))"
      from i have "ie_id e \<in> set (fd_inwardEntryIds (formData st)) \<or> ie_id e = ie_id (li_entry entry)"
        by (auto simp: toggle_ids split: if_splits)
      then have "entry_linkable sess st e"
      proof
        assume "ie_id e \<in> set (fd_inwardEntryIds (formData st))"
        with inv e show ?thesis by (simp add: links_ok_iff)
      next
        assume "ie_id e = ie_id (li_entry entry)"
        with uniq e indb have "e = li_entry entry" by (rule unique_id)
        with ok show ?thesis by simp
      qed
      then show "entry_linkable sess (toggleInwardEntry entry (\<not> isSelected st entry) st) e"
        by (simp add: entry_linkable_def toggle_ids)
    qed
  next
    case (SelectOutwardEntries selected)
    show ?thesis unfolding SelectOutwardEntries handle.simps
      by (rule links_ok_frame[OF inv]) (simp_all add: selectOutwardEntries_def)
  next
    case SubmitSucceeded
    then show ?thesis by (simp add: links_ok_iff resetAfterSubmit_def)
  qed (use False in simp_all)
qed

lemma handle_outward_ok:
  assumes inv: "outward_ok sess st" and en: "enabled sess st ev"
  shows "outward_ok sess (handle sess ev st)"
proof (cases "plain_event ev")
  case True
  with inv show ?thesis by (simp add: outward_ok_def plain_event_frame)
next
  case False
  then show ?thesis
  proof (cases ev)
    case (SelectCompany cid response)
    with inv show ?thesis by (simp add: outward_ok_def selectCompany_ids)
  next
    case (PreselectEffect response)
    with inv show ?thesis by (simp add: outward_ok_def preselectEffect_outward)
  next
    case (AppendConfirm response)
    with en obtain ex where ex: "existingInvoice st = Some ex"
      by (auto simp: appendOffered_def)
    from inv show ?thesis unfolding AppendConfirm handle.simps outward_ok_def
      by (cases response)
         (simp_all add: handleAppendConfirm_cases(3)[OF ex] merge_invoice_outward)
  next
    case (ToggleInwardEntry entry)
    with inv show ?thesis by (simp add: outward_ok_def toggle_ids)
  next
    case (SelectOutwardEntries selected)
    with en show ?thesis by (simp add: outward_ok_def selectOutwardEntries_def)
  next
    case SubmitSucceeded
    then show ?thesis by (simp add: outward_ok_def resetAfterSubmit_def initial_form_def)
  qed (use False in simp_all)
qed

lemma step_invariants:
  assumes "distinct (map ie_id (inwardEntry (s_db sess)))"
      and "links_ok sess st" and "outward_ok sess st"
      and "consistent_response (s_db sess) ev"
      and "step sess ev st = Some st'"
  shows "links_ok sess st'" and "outward_ok sess st'"
proof -
  from assms(5) have en: "enabled sess st ev" and st': "st' = syncPaymentAmount (handle sess ev st)"
    by (auto simp: step_def split: if_splits)
  have "links_ok sess (handle sess ev st)"
    by (rule handle_links_ok[OF assms(1,2) en assms(4)])
  then show "links_ok sess st'" unfolding st'
    by (rule links_ok_frame) (simp_all add: syncPaymentAmount_frame)
  have "outward_ok sess (handle sess ev st)"
    by (rule handle_outward_ok[OF assms(3) en])
  then show "outward_ok sess st'" unfolding st'
    by (simp add: outward_ok_def syncPaymentAmount_frame)
qed

lemma run_invariants:
  assumes "distinct (map ie_id (inwardEntry (s_db sess)))"
      and "links_ok sess st" and "outward_ok sess st"
      and "list_all (consistent_response (s_db sess)) evs"
      and "run sess evs st = Some st'"
  shows "links_ok sess st' \<and> outward_ok sess st'"
  using assms(2-5)
proof (induction evs arbitrary: st)
  case Nil
  then show ?case by simp
next
  case (Cons ev evs)
  from Cons.prems(4) obtain st1 where s1: "step sess ev st = Some st1"
    and r: "run sess evs st1 = Some st'"
    by (auto split: option.splits)
  from Cons.prems(3) have c: "consistent_response (s_db sess) ev"
    and cs: "list_all (consistent_response (s_db sess)) evs" by simp_all
  note i = step_invariants[OF assms(1) Cons.prems(1,2) c s1]
  show ?case by (rule Cons.IH[OF i cs r])
qed

lemma initial_invariants:
  "links_ok sess (initial_state sess)" "outward_ok sess (initial_state sess)"
  by (simp_all add: links_ok_iff entry_linkable_def outward_ok_def initial_state_def
        initial_form_def)

lemma isDisabled_iff:
  "isDisabled st entry =
     (opt_truthy (ie_invoiceId (li_entry entry))
      \<and> \<not> (isAppendMode st \<and> existingInvoice st \<noteq> None
             \<and> ie_invoiceId (li_entry entry) = map_option iv_id (existingInvoice st)))"
  by (auto simp: isDisabled_def isInvoiced_def isLinkedToCurrent_def split: option.splits)

lemma disabled_not_enabled: "isDisabled st entry \<Longrightarrow> step sess (ToggleInwardEntry entry) st = None"
  by (simp add: step_def)

lemma outwardOptions_uninvoiced: "\<forall>x \<in> set (outwardOptions sess). \<not> opt_truthy (oe_invoiceId x)"
  by (simp add: outwardOptions_def)

lemma createPayload_links:
  "or_default (pl_inwardEntryIds (createPayload sess st)) [] = fd_inwardEntryIds (formData st)"
  "or_default (pl_outwardEntryIds (createPayload sess st)) [] = fd_outwardEntryIds (formData st)"
  by (simp_all add: createPayload_def Let_def or_undefined_def or_default_def)

lemma submit_create_links:
  assumes "links_ok sess st" and "outward_ok sess st" and "handleSubmit sess st = CreateInvoice p"
  shows "\<forall>e \<in> set (inwardEntry (s_db sess)).
           ie_id e \<in> set (or_default (pl_inwardEntryIds p) []) \<longrightarrow>
             ie_id e \<in> set (s_preselectedEntryIds sess) \<or> \<not> opt_truthy (ie_invoiceId e)"
    and "set (or_default (pl_outwardEntryIds p) []) \<subseteq> set (map oe_id (outwardOptions sess))"
proof -
  note c = handleSubmit_Create[OF assms(3)]
  show "\<forall>e \<in> set (inwardEntry (s_db sess)).
           ie_id e \<in> set (or_default (pl_inwardEntryIds p) []) \<longrightarrow>
             ie_id e \<in> set (s_preselectedEntryIds sess) \<or> \<not> opt_truthy (ie_invoiceId e)"
    using assms(1) c(2) unfolding c(1) createPayload_links links_ok_iff entry_linkable_def
    by blast
  show "set (or_default (pl_outwardEntryIds p) []) \<subseteq> set (map oe_id (outwardOptions sess))"
    using assms(2) unfolding c(1) createPayload_links outward_ok_def list_all_iff
    by blast
qed

lemma submit_update_links:
  assumes "links_ok sess st" and "handleSubmit sess st = UpdateInvoice i p"
  shows "\<forall>e \<in> set (inwardEntry (s_db sess)).
           ie_id e \<in> set (or_default (pl_inwardEntryIds p) []) \<longrightarrow>
             ie_id e \<in> set (s_preselectedEntryIds sess) \<or> \<not> opt_truthy (ie_invoiceId e)
             \<or> ie_invoiceId e = Some i"
proof -
  note u = handleSubmit_Update[OF assms(2)]
  have ids: "or_default (pl_inwardEntryIds p) [] = fd_inwardEntryIds (formData st)"
    unfolding u(1) by (simp add: updatePayload_lists or_default_def)
  show ?thesis
    using assms(1) u(3) unfolding ids links_ok_iff entry_linkable_def
    by auto
qed

text \<open>
  The guarded paths. In a run of the form up to its submission, the checkbox of an inward
  entry is disabled exactly when the entry has an invoice other than the one being appended
  to, and a disabled entry cannot be toggled; the outward picker offers only entries without
  an invoice. Hence every inward entry that the submission links was preselected by the
  caller, or has no invoice, or (when an invoice is updated) belongs to that invoice, and
  every outward entry that it links was offered by the picker. The database is the one the
  form's queries read, with unique entry ids, and the invoice fetched on append lists entries
  linked to it.
\<close>

lemma guarded_links_one_invoice:
  assumes "distinct (map ie_id (inwardEntry (s_db sess)))"
      and "list_all (consistent_response (s_db sess)) evs"
      and "SubmitSucceeded \<notin> set evs"
      and "run sess evs (initial_state sess) = Some st"
  shows "(isDisabled st entry =
            (opt_truthy (ie_invoiceId (li_entry entry))
             \<and> \<not> (isAppendMode st \<and> existingInvoice st \<noteq> None
                    \<and> ie_invoiceId (li_entry entry) = map_option iv_id (existingInvoice st))))
       \<and> (isDisabled st entry \<longrightarrow> step sess (ToggleInwardEntry entry) st = None)
       \<and> (\<forall>x \<in> set (outwardOptions sess). \<not> opt_truthy (oe_invoiceId x))
       \<and> (handleSubmit sess st = CreateInvoice p \<longrightarrow>
            (\<forall>e \<in> set (inwardEntry (s_db sess)).
               ie_id e \<in> set (or_default (pl_inwardEntryIds p) []) \<longrightarrow>
                 ie_id e \<in> set (s_preselectedEntryIds sess) \<or> \<not> opt_truthy (ie_invoiceId e))
          \<and> set (or_default (pl_outwardEntryIds p) []) \<subseteq> set (map oe_id (outwardOptions sess)))
       \<and> (handleSubmit sess st = UpdateInvoice i p \<longrightarrow>
            (\<forall>e \<in> set (inwardEntry (s_db sess)).
               ie_id e \<in> set (or_default (pl_inwardEntryIds p) []) \<longrightarrow>
                 ie_id e \<in> set (s_preselectedEntryIds sess) \<or> \<not> opt_truthy (ie_invoiceId e)
                 \<or> ie_invoiceId e = Some i))"
proof -
  from run_invariants[OF assms(1) initial_invariants assms(2,4)]
  have l: "links_ok sess st" and ow: "outward_ok sess st" by simp_all
  from isDisabled_iff[of st entry] disabled_not_enabled[of st entry sess]
       outwardOptions_uninvoiced[of sess]
       submit_create_links[OF l ow, of p] submit_update_links[OF l, of i p]
  show ?thesis by (intro conjI impI) assumption+
qed

text \<open>Without preselected entries, the submission links no inward entry that has another
  invoice.\<close>

lemma guarded_links_no_preselection:
  assumes "distinct (map ie_id (inwardEntry (s_db sess)))"
      and "list_all (consistent_response (s_db sess)) evs"
      and "SubmitSucceeded \<notin> set evs"
      and "s_preselectedEntryIds sess = []"
      and "run sess evs (initial_state sess) = Some st"
      and "e \<in> set (inwardEntry (s_db sess))"
  shows "handleSubmit sess st = CreateInvoice p \<Longrightarrow>
           ie_id e \<in> set (or_default (pl_inwardEntryIds p) []) \<Longrightarrow>
           \<not> opt_truthy (ie_invoiceId e)"
    and "handleSubmit sess st = UpdateInvoice i p \<Longrightarrow>
           ie_id e \<in> set (or_default (pl_inwardEntryIds p) []) \<Longrightarrow>
           \<not> opt_truthy (ie_invoiceId e) \<or> ie_invoiceId e = Some i"
  using guarded_links_one_invoice[OF assms(1,2,3,5), of _ p i] assms(4,6)
  by auto

text \<open>
  C9. An entry links to at most one invoice: the checkbox and the outward picker keep
  invoiced entries out of a submission (\<open>guarded_links_one_invoice\<close>), but the preselected
  entries bypass them. The form takes \<open>preselectedEntryIds\<close> as its linked entries without
  looking at their invoices: with the entry \<open>e1\<close> of invoice \<open>i1\<close> preselected, the effect
  fills in the company, the checkbox of \<open>e1\<close> is rendered checked and disabled, the user
  enters a subtotal, and the submission creates a new invoice linking \<open>e1\<close>. The same
  entry cannot be linked through its checkbox: that run of the form does not exist.
\<close>

theorem preselected_invoiced_entry_submitted:
  "ex_invoiced_entry \<in> set (inwardEntry (s_db ex_session3))
   \<and> ie_id ex_invoiced_entry = ''e1''
   \<and> ie_invoiceId ex_invoiced_entry = Some ''i1''
   \<and> s_preselectedEntryIds ex_session3 = [''e1'']
   \<and> rendered_checkbox ex_session3 ex_preselect_events (ex_item2 0) = Some (True, True)
   \<and> submitted_inward ex_session3 ex_preselect_events = Some (None, [''e1''])
   \<and> run ex_session2 ex_toggle_invoiced_events (initial_state ex_session2) = None"
  by code_simp

lemma ex_append_run:
  "run ex_session2 ex_append_events (initial_state ex_session2) \<noteq> None"
  "map_option (\<lambda>st. case handleSubmit ex_session2 st of
                       UpdateInvoice i p \<Rightarrow> i = ''i1'' | _ \<Rightarrow> False)
     (run ex_session2 ex_append_events (initial_state ex_session2)) = Some True"
  "map_option (\<lambda>st. isDisabled st (ex_item2 2))
     (run ex_session2 ex_append_events (initial_state ex_session2)) = Some True"
  by code_simp+

lemma ex_create_run:
  "run ex_session2 ex_create_events (initial_state ex_session2) \<noteq> None"
  "map_option (\<lambda>st. case handleSubmit ex_session2 st of CreateInvoice p \<Rightarrow> True | _ \<Rightarrow> False)
     (run ex_session2 ex_create_events (initial_state ex_session2)) = Some True"
  by code_simp+

lemma ex_session2_facts:
  "distinct (map ie_id (inwardEntry (s_db ex_session2)))"
  "list_all (consistent_response (s_db ex_session2)) ex_append_events"
  "list_all (consistent_response (s_db ex_session2)) ex_create_events"
  "s_preselectedEntryIds ex_session2 = []"
  "s_db ex_session2 = ex_db2"
  by code_simp+

lemma ex_no_submit:
  "SubmitSucceeded \<notin> set ex_append_events"
  "SubmitSucceeded \<notin> set ex_create_events"
  by (simp_all add: ex_append_events_def ex_create_events_def)

lemma guarded_links_example:
  "(\<exists>st p. run ex_session2 ex_append_events (initial_state ex_session2) = Some st
       \<and> handleSubmit ex_session2 st = UpdateInvoice ''i1'' p
       \<and> isDisabled st (ex_item2 2)
       \<and> step ex_session2 (ToggleInwardEntry (ex_item2 2)) st = None
       \<and> (\<forall>e \<in> set (inwardEntry ex_db2).
             ie_id e \<in> set (or_default (pl_inwardEntryIds p) []) \<longrightarrow>
               \<not> opt_truthy (ie_invoiceId e) \<or> ie_invoiceId e = Some ''i1''))
   \<and> (\<exists>st p. run ex_session2 ex_create_events (initial_state ex_session2) = Some st
       \<and> handleSubmit ex_session2 st = CreateInvoice p
       \<and> (\<forall>e \<in> set (inwardEntry ex_db2).
             ie_id e \<in> set (or_default (pl_inwardEntryIds p) []) \<longrightarrow>
               \<not> opt_truthy (ie_invoiceId e)))"
proof -
  obtain st1 where r1: "run ex_session2 ex_append_events (initial_state ex_session2) = Some st1"
    using ex_append_run(1) by blast
  from ex_append_run(2) r1 obtain p1 where s1: "handleSubmit ex_session2 st1 = UpdateInvoice ''i1'' p1"
    by (cases "handleSubmit ex_session2 st1") auto
  from ex_append_run(3) r1 have d1: "isDisabled st1 (ex_item2 2)" by simp
  note t1 = guarded_links_one_invoice[OF ex_session2_facts(1,2) ex_no_submit(1) r1,
      where entry = "ex_item2 2" and p = p1 and i = "''i1''"]
  from t1 d1 have n1: "step ex_session2 (ToggleInwardEntry (ex_item2 2)) st1 = None" by blast
  from t1 s1 have u1: "\<forall>e \<in> set (inwardEntry ex_db2).
             ie_id e \<in> set (or_default (pl_inwardEntryIds p1) []) \<longrightarrow>
               \<not> opt_truthy (ie_invoiceId e) \<or> ie_invoiceId e = Some ''i1''"
    unfolding ex_session2_facts(4,5) by simp
  obtain st2 where r2: "run ex_session2 ex_create_events (initial_state ex_session2) = Some st2"
    using ex_create_run(1) by blast
  from ex_create_run(2) r2 obtain p2 where s2: "handleSubmit ex_session2 st2 = CreateInvoice p2"
    by (cases "handleSubmit ex_session2 st2") auto
  note t2 = guarded_links_one_invoice[OF ex_session2_facts(1,3) ex_no_submit(2) r2,
      where entry = "ex_item2 2" and p = p2 and i = "''i1''"]
  from t2 s2 have u2: "\<forall>e \<in> set (inwardEntry ex_db2).
             ie_id e \<in> set (or_default (pl_inwardEntryIds p2) []) \<longrightarrow>
               \<not> opt_truthy (ie_invoiceId e)"
    unfolding ex_session2_facts(4,5) by simp
  from r1 s1 d1 n1 u1 r2 s2 u2 show ?thesis by blast
qed


end
